theory Spec2Isabelle
  imports Complex_Main
begin

section \<open>Python floats\<close>

text \<open>
  Metric scores are Python floats (IEEE 754 binary64). A finite double is a rational
  number, so a float is modelled as a \<open>rat\<close>, and every arithmetic operation is the
  exact operation followed by rounding to a 53-bit significand, ties to even.
  The exponent range is not bounded in this model: overflow to infinity, subnormal
  numbers and NaN are left out (scores are far from both ends of the range).
\<close>

type_synonym py_float = rat

definition round_half_even :: "rat \<Rightarrow> int" where
  "round_half_even s =
     (let f = \<lfloor>s\<rfloor>; d = s - of_int f
      in if d < 1 / 2 then f
         else if 1 / 2 < d then f + 1
         else if even f then f else f + 1)"

text \<open>The number of binary digits of a positive integer (Python's \<open>int.bit_length\<close>).\<close>

function bit_length :: "int \<Rightarrow> int" where
  "bit_length a = (if a \<le> 0 then 0 else 1 + bit_length (a div 2))"
  by pat_completeness auto
termination
  by (relation "measure nat") auto

declare bit_length.simps [simp del]

text \<open>For \<open>q > 0\<close>, the integer \<open>e\<close> with \<open>2^e \<le> q < 2^(e+1)\<close>.\<close>

definition exponent2 :: "rat \<Rightarrow> int" where
  "exponent2 q =
     (let (a, b) = quotient_of q;
          e0 = bit_length a - bit_length b
      in if q < 2 powi e0 then e0 - 1 else e0)"

definition round64 :: "rat \<Rightarrow> py_float" where
  "round64 q =
     (if q = 0 then 0
      else let e = exponent2 \<bar>q\<bar> - 52;
               m = round_half_even (\<bar>q\<bar> / 2 powi e)
           in sgn q * of_int m * 2 powi e)"

definition py_add :: "py_float \<Rightarrow> py_float \<Rightarrow> py_float" where
  "py_add x y = round64 (x + y)"

definition py_sub :: "py_float \<Rightarrow> py_float \<Rightarrow> py_float" where
  "py_sub x y = round64 (x - y)"

text \<open>
  Division by zero raises in Python. The only division of the source is by the length
  of a list that is not empty, so the model has no such branch.
\<close>

definition py_div :: "py_float \<Rightarrow> py_float \<Rightarrow> py_float" where
  "py_div x y = round64 (x / y)"

text \<open>
  \<open>sum(scores)\<close>: starts from 0 and adds from left to right, rounding after each
  addition.
\<close>

definition py_sum :: "py_float list \<Rightarrow> py_float" where
  "py_sum xs = foldl py_add 0 xs"

section \<open>sentinel/evaluator.py\<close>

subsection \<open>The metrics of deepeval\<close>

record LLMTestCase =
  input :: string
  actual_output :: string
  expected_output :: "string option"
  context_tc :: "string option"

text \<open>
  What the body of a \<open>try\<close> block sees of one metric: \<open>metric.measure(test_case)\<close>
  either raises an \<open>Exception\<close> (kept as its message \<open>str(e)\<close>) or leaves a numeric
  \<open>metric.score\<close> and an optional \<open>metric.reason\<close>. A metric calls a language model,
  so it reads and changes the world \<open>'w\<close>.
\<close>

datatype measured = Raises string | Measured py_float "string option"

record 'w metric =
  threshold_m :: py_float
  measure_m :: "'w \<Rightarrow> LLMTestCase \<Rightarrow> measured \<times> 'w"

subsection \<open>The dictionaries the evaluator returns\<close>

text \<open>
  One per-metric entry. The source builds dictionaries with different key sets; a field
  is \<open>None\<close> when the dictionary has no such key. The key \<open>reason\<close> holds an optional
  text, so it is an option of an option.
\<close>

record metric_result =
  score :: "py_float option"
  threshold :: "py_float option"
  passed :: "bool option"
  reason :: "string option option"
  error :: "string option"

record case_result =
  test_case :: LLMTestCase
  results :: "string \<rightharpoonup> metric_result"

record evaluation = case_result +
  timestamp :: string

record comparison_entry =
  ollama :: py_float
  cloud :: py_float
  difference :: py_float
  better :: string

record comparison_evaluation =
  ollama_evaluation :: evaluation
  cloud_evaluation :: evaluation
  comparison :: "string \<rightharpoonup> comparison_entry"
  comparison_timestamp :: string

record aggregate_entry =
  mean :: py_float
  min_score :: py_float
  max_score :: py_float
  count :: nat

record batch_evaluation =
  individual_results :: "case_result list"
  aggregate_scores :: "string \<rightharpoonup> aggregate_entry"
  batch_timestamp :: string

subsection \<open>SentinelEvaluator\<close>

text \<open>
  \<open>self.metrics\<close> is a dictionary; its items are iterated in insertion order, so it
  is a list of pairs.
\<close>

record 'w SentinelEvaluator =
  metrics :: "(string \<times> 'w metric) list"
  test_cases :: "LLMTestCase list"

text \<open>
  \<open>__init__\<close>: the four metrics with their thresholds. The scoring functions are
  deepeval's and are parameters here. The literal \<open>0.7\<close> is the double nearest to 7/10.
\<close>

definition SentinelEvaluator_init ::
  "('w \<Rightarrow> LLMTestCase \<Rightarrow> measured \<times> 'w) \<Rightarrow> ('w \<Rightarrow> LLMTestCase \<Rightarrow> measured \<times> 'w) \<Rightarrow>
   ('w \<Rightarrow> LLMTestCase \<Rightarrow> measured \<times> 'w) \<Rightarrow> ('w \<Rightarrow> LLMTestCase \<Rightarrow> measured \<times> 'w) \<Rightarrow>
   'w SentinelEvaluator" where
  "SentinelEvaluator_init RelevanceMetric HallucinationMetric AnswerRelevancyMetric
       FaithfulnessMetric =
     \<lparr>metrics =
        [(''relevance'', \<lparr>threshold_m = round64 (7 / 10), measure_m = RelevanceMetric\<rparr>),
         (''hallucination'', \<lparr>threshold_m = round64 (5 / 10), measure_m = HallucinationMetric\<rparr>),
         (''answer_relevancy'',
            \<lparr>threshold_m = round64 (7 / 10), measure_m = AnswerRelevancyMetric\<rparr>),
         (''faithfulness'', \<lparr>threshold_m = round64 (7 / 10), measure_m = FaithfulnessMetric\<rparr>)],
      test_cases = []\<rparr>"

definition create_test_case ::
  "string \<Rightarrow> string \<Rightarrow> string option \<Rightarrow> string option \<Rightarrow> LLMTestCase" where
  "create_test_case input_text actual expected ctx =
     \<lparr>input = input_text, actual_output = actual, expected_output = expected,
      context_tc = ctx\<rparr>"

text \<open>The \<open>try\<close>/\<open>except\<close> of \<open>evaluate_analysis\<close>, given what the metric did.\<close>

definition evaluate_analysis_entry :: "'w metric \<Rightarrow> measured \<Rightarrow> metric_result" where
  "evaluate_analysis_entry metric outcome =
     (case outcome of
        Measured s r \<Rightarrow>
          \<lparr>score = Some s, threshold = Some (threshold_m metric),
           passed = Some (threshold_m metric \<le> s), reason = Some r, error = None\<rparr>
      | Raises e \<Rightarrow>
          \<lparr>score = None, threshold = None, passed = Some False, reason = None,
           error = Some e\<rparr>)"

text \<open>The loop \<open>for metric_name, metric in self.metrics.items()\<close>.\<close>

fun evaluate_analysis_loop ::
  "LLMTestCase \<Rightarrow> (string \<times> 'w metric) list \<Rightarrow> (string \<rightharpoonup> metric_result) \<times> 'w \<Rightarrow>
   (string \<rightharpoonup> metric_result) \<times> 'w" where
  "evaluate_analysis_loop tc [] (res, w) = (res, w)"
| "evaluate_analysis_loop tc ((metric_name, metric) # rest) (res, w) =
     (case measure_m metric w tc of
        (outcome, w') \<Rightarrow>
          evaluate_analysis_loop tc rest
            (res(metric_name \<mapsto> evaluate_analysis_entry metric outcome), w'))"

text \<open>\<open>utcnow\<close> reads the clock of the world: \<open>datetime.utcnow().isoformat()\<close>.\<close>

definition evaluate_analysis ::
  "('w \<Rightarrow> string) \<Rightarrow> 'w SentinelEvaluator \<Rightarrow> string \<Rightarrow> string \<Rightarrow> string option \<Rightarrow> 'w \<Rightarrow>
   evaluation \<times> 'w" where
  "evaluate_analysis utcnow self log_snippet analysis expected_severity w =
     (let tc = create_test_case log_snippet analysis expected_severity
                 (Some ''Installation log analysis'')
      in case evaluate_analysis_loop tc (metrics self) (Map.empty, w) of
           (res, w') \<Rightarrow>
             (\<lparr>test_case = tc, results = res, timestamp = utcnow w'\<rparr>, w'))"

text \<open>\<open>d.get(metric_name, {}).get('score', 0)\<close>\<close>

definition get_score :: "(string \<rightharpoonup> metric_result) \<Rightarrow> string \<Rightarrow> py_float" where
  "get_score d metric_name =
     (case d metric_name of
        None \<Rightarrow> 0
      | Some entry \<Rightarrow> (case score entry of None \<Rightarrow> 0 | Some s \<Rightarrow> s))"

fun evaluate_comparison_loop ::
  "evaluation \<Rightarrow> evaluation \<Rightarrow> string list \<Rightarrow> (string \<rightharpoonup> comparison_entry) \<Rightarrow>
   (string \<rightharpoonup> comparison_entry)" where
  "evaluate_comparison_loop ollama_eval cloud_eval [] cmp = cmp"
| "evaluate_comparison_loop ollama_eval cloud_eval (metric_name # rest) cmp =
     (let ollama_score = get_score (results ollama_eval) metric_name;
          cloud_score = get_score (results cloud_eval) metric_name
      in evaluate_comparison_loop ollama_eval cloud_eval rest
           (cmp(metric_name \<mapsto>
              \<lparr>ollama = ollama_score, cloud = cloud_score,
               difference = py_sub cloud_score ollama_score,
               better = (if ollama_score < cloud_score then ''cloud'' else ''ollama'')\<rparr>)))"

definition evaluate_comparison ::
  "('w \<Rightarrow> string) \<Rightarrow> 'w SentinelEvaluator \<Rightarrow> string \<Rightarrow> string \<Rightarrow> string \<Rightarrow> 'w \<Rightarrow>
   comparison_evaluation \<times> 'w" where
  "evaluate_comparison utcnow self log_snippet ollama_analysis cloud_analysis w =
     (case evaluate_analysis utcnow self log_snippet ollama_analysis None w of
        (ollama_eval, w1) \<Rightarrow>
          (case evaluate_analysis utcnow self log_snippet cloud_analysis None w1 of
             (cloud_eval, w2) \<Rightarrow>
               (\<lparr>ollama_evaluation = ollama_eval, cloud_evaluation = cloud_eval,
                 comparison =
                   evaluate_comparison_loop ollama_eval cloud_eval
                     (map fst (metrics self)) Map.empty,
                 comparison_timestamp = utcnow w2\<rparr>, w2)))"

text \<open>The \<open>try\<close>/\<open>except\<close> of \<open>batch_evaluate\<close>, given what the metric did.\<close>

definition batch_evaluate_entry :: "'w metric \<Rightarrow> measured \<Rightarrow> metric_result" where
  "batch_evaluate_entry metric outcome =
     (case outcome of
        Measured s r \<Rightarrow>
          \<lparr>score = Some s, threshold = None, passed = Some (threshold_m metric \<le> s),
           reason = None, error = None\<rparr>
      | Raises e \<Rightarrow>
          \<lparr>score = None, threshold = None, passed = None, reason = None,
           error = Some e\<rparr>)"

fun batch_evaluate_metrics ::
  "LLMTestCase \<Rightarrow> (string \<times> 'w metric) list \<Rightarrow> (string \<rightharpoonup> metric_result) \<times> 'w \<Rightarrow>
   (string \<rightharpoonup> metric_result) \<times> 'w" where
  "batch_evaluate_metrics tc [] (eval_result, w) = (eval_result, w)"
| "batch_evaluate_metrics tc ((metric_name, metric) # rest) (eval_result, w) =
     (case measure_m metric w tc of
        (outcome, w') \<Rightarrow>
          batch_evaluate_metrics tc rest
            (eval_result(metric_name \<mapsto> batch_evaluate_entry metric outcome), w'))"

text \<open>The loop \<open>for test_case in test_cases\<close>, appending to \<open>results\<close>.\<close>

fun batch_evaluate_cases ::
  "(string \<times> 'w metric) list \<Rightarrow> LLMTestCase list \<Rightarrow> case_result list \<times> 'w \<Rightarrow>
   case_result list \<times> 'w" where
  "batch_evaluate_cases ms [] (rs, w) = (rs, w)"
| "batch_evaluate_cases ms (tc # tcs) (rs, w) =
     (case batch_evaluate_metrics tc ms (Map.empty, w) of
        (eval_result, w') \<Rightarrow>
          batch_evaluate_cases ms tcs
            (rs @ [\<lparr>test_case = tc, results = eval_result\<rparr>], w'))"

text \<open>
  The list comprehension
  \<open>[r['results'].get(n, {}).get('score', 0) for r in results if 'score' in r['results'].get(n, {})]\<close>.
\<close>

definition has_score :: "(string \<rightharpoonup> metric_result) \<Rightarrow> string \<Rightarrow> bool" where
  "has_score d metric_name =
     (case d metric_name of None \<Rightarrow> False | Some entry \<Rightarrow> score entry \<noteq> None)"

definition scores_of :: "case_result list \<Rightarrow> string \<Rightarrow> py_float list" where
  "scores_of rs metric_name =
     map (\<lambda>r. get_score (results r) metric_name)
       (filter (\<lambda>r. has_score (results r) metric_name) rs)"

text \<open>
  The loop that fills \<open>aggregate\<close>. \<open>if scores:\<close> is the case distinction on the list;
  \<open>min\<close> and \<open>max\<close> of a non-empty list fold over it.
\<close>

fun batch_evaluate_aggregate ::
  "case_result list \<Rightarrow> string list \<Rightarrow> (string \<rightharpoonup> aggregate_entry) \<Rightarrow>
   (string \<rightharpoonup> aggregate_entry)" where
  "batch_evaluate_aggregate rs [] aggregate = aggregate"
| "batch_evaluate_aggregate rs (metric_name # rest) aggregate =
     (case scores_of rs metric_name of
        [] \<Rightarrow> batch_evaluate_aggregate rs rest aggregate
      | x # xs \<Rightarrow>
          batch_evaluate_aggregate rs rest
            (aggregate(metric_name \<mapsto>
               \<lparr>mean = py_div (py_sum (x # xs)) (of_nat (length (x # xs))),
                min_score = foldl min x xs,
                max_score = foldl max x xs,
                count = length (x # xs)\<rparr>)))"

definition batch_evaluate ::
  "('w \<Rightarrow> string) \<Rightarrow> 'w SentinelEvaluator \<Rightarrow> LLMTestCase list \<Rightarrow> 'w \<Rightarrow>
   batch_evaluation \<times> 'w" where
  "batch_evaluate utcnow self tcs w =
     (case batch_evaluate_cases (metrics self) tcs ([], w) of
        (rs, w') \<Rightarrow>
          (\<lparr>individual_results = rs,
            aggregate_scores =
              batch_evaluate_aggregate rs (map fst (metrics self)) Map.empty,
            batch_timestamp = utcnow w'\<rparr>, w'))"

section \<open>sentinel/dspy_program.py\<close>

subsection \<open>The predictors of dspy\<close>

text \<open>
  The values a field of a prediction can hold, and a prediction (\<open>dspy.Prediction\<close>) as
  the map from attribute names to values. Reading an attribute that is not there raises
  \<open>AttributeError\<close>; any other exception of a call is a \<open>BackendError\<close>.
\<close>

datatype pyval = PStr string | PBool bool | PFloat py_float | PNone

type_synonym prediction = "string \<rightharpoonup> pyval"

datatype py_exception = BackendError string | AttributeError string

definition getattr :: "prediction \<Rightarrow> string \<Rightarrow> py_exception + pyval" where
  "getattr p a = (case p a of None \<Rightarrow> Inl (AttributeError a) | Some v \<Rightarrow> Inr v)"

record LM =
  model :: string
  api_base :: "string option"
  api_key :: "string option"
  model_type :: "string option"
  api_provider :: "string option"

text \<open>
  A predictor called inside \<open>with dspy.context(lm=...)\<close>: it gets the language model of
  the context and the log snippet, talks to the backend (the world \<open>'w\<close>), and returns a
  prediction or raises.
\<close>

type_synonym 'w predictor = "LM \<Rightarrow> 'w \<Rightarrow> string \<Rightarrow> (py_exception + prediction) \<times> 'w"

text \<open>
  What the module takes from its libraries: \<open>dspy.ChainOfThought(SentinelAnalysis)\<close>,
  the \<open>dspy.Predict\<close> of the comparator, \<open>json.dumps(_, indent=2)\<close> and
  \<open>datetime.utcnow().isoformat()\<close>.
\<close>

record 'w library =
  lib_ChainOfThought :: "'w predictor"
  lib_Predict :: "'w \<Rightarrow> string \<Rightarrow> string \<Rightarrow> (py_exception + prediction) \<times> 'w"
  lib_json_dumps :: "(string \<rightharpoonup> pyval) \<Rightarrow> string"
  lib_utcnow :: "'w \<Rightarrow> string"

definition configure_dspy :: "string \<Rightarrow> string \<Rightarrow> LM \<times> LM" where
  "configure_dspy ollama_model cloud_model =
     (\<lparr>model = ollama_model, api_base = Some ''http://localhost:11434/v1'',
       api_key = Some ''ollama'', model_type = Some ''openai'', api_provider = None\<rparr>,
      \<lparr>model = cloud_model, api_base = None, api_key = None, model_type = None,
       api_provider = Some ''openai''\<rparr>)"



subsection \<open>SentinelAnalyzer\<close>

record 'w SentinelAnalyzer =
  ollama_analyzer :: "'w predictor"
  cloud_analyzer :: "'w predictor"
  ollama_lm :: LM
  cloud_lm :: LM

definition SentinelAnalyzer_init :: "'w predictor \<Rightarrow> LM \<Rightarrow> LM \<Rightarrow> 'w SentinelAnalyzer" where
  "SentinelAnalyzer_init ChainOfThought ollama_lm' cloud_lm' =
     \<lparr>ollama_analyzer = ChainOfThought, cloud_analyzer = ChainOfThought,
      ollama_lm = ollama_lm', cloud_lm = cloud_lm'\<rparr>"

text \<open>
  The dictionary literal of \<open>forward\<close>: the five attributes are read in this order, and
  the first one missing raises.
\<close>

definition analysis_dict :: "prediction \<Rightarrow> py_exception + (string \<rightharpoonup> pyval)" where
  "analysis_dict r =
     (case getattr r ''severity'' of Inl e \<Rightarrow> Inl e | Inr severity \<Rightarrow>
      case getattr r ''category'' of Inl e \<Rightarrow> Inl e | Inr category \<Rightarrow>
      case getattr r ''pattern_matched'' of Inl e \<Rightarrow> Inl e | Inr pattern_matched \<Rightarrow>
      case getattr r ''suggested_action'' of Inl e \<Rightarrow> Inl e | Inr suggested_action \<Rightarrow>
      case getattr r ''learning_candidate'' of Inl e \<Rightarrow> Inl e | Inr learning_candidate \<Rightarrow>
        Inr [''severity'' \<mapsto> severity, ''category'' \<mapsto> category,
             ''pattern_matched'' \<mapsto> pattern_matched,
             ''suggested_action'' \<mapsto> suggested_action,
             ''learning_candidate'' \<mapsto> learning_candidate])"

text \<open>
  One \<open>with dspy.context(lm=lm)\<close> block of \<open>forward\<close>: the call of the analyzer and the
  dictionary built from its result.
\<close>

definition analyze_with ::
  "'w predictor \<Rightarrow> LM \<Rightarrow> 'w \<Rightarrow> string \<Rightarrow> (py_exception + (string \<rightharpoonup> pyval)) \<times> 'w" where
  "analyze_with analyzer lm w log_snippet =
     (case analyzer lm w log_snippet of
        (Inl e, w') \<Rightarrow> (Inl e, w')
      | (Inr r, w') \<Rightarrow> (analysis_dict r, w'))"

definition forward ::
  "'w SentinelAnalyzer \<Rightarrow> string \<Rightarrow> bool \<Rightarrow> 'w \<Rightarrow>
   (py_exception + (string \<rightharpoonup> (string \<rightharpoonup> pyval))) \<times> 'w" where
  "forward self log_snippet use_both w =
     (case analyze_with (ollama_analyzer self) (ollama_lm self) w log_snippet of
        (Inl e, w1) \<Rightarrow> (Inl e, w1)
      | (Inr ollama_result, w1) \<Rightarrow>
          (let res = [''ollama'' \<mapsto> ollama_result]
           in if use_both
              then (case analyze_with (cloud_analyzer self) (cloud_lm self) w1 log_snippet of
                      (Inl e, w2) \<Rightarrow> (Inl e, w2)
                    | (Inr cloud_result, w2) \<Rightarrow> (Inr (res(''cloud'' \<mapsto> cloud_result)), w2))
              else (Inr res, w1)))"

subsection \<open>LLMComparator\<close>

definition LLMComparator_compare ::
  "'w library \<Rightarrow> (string \<rightharpoonup> pyval) \<Rightarrow> (string \<rightharpoonup> pyval) \<Rightarrow> 'w \<Rightarrow>
   (py_exception + (string \<rightharpoonup> pyval)) \<times> 'w" where
  "LLMComparator_compare lib ollama_analysis cloud_analysis w =
     (let ollama_str = lib_json_dumps lib ollama_analysis;
          cloud_str = lib_json_dumps lib cloud_analysis
      in case lib_Predict lib w ollama_str cloud_str of
           (Inl e, w') \<Rightarrow> (Inl e, w')
         | (Inr c, w') \<Rightarrow>
             (case getattr c ''differences'' of Inl e \<Rightarrow> (Inl e, w') | Inr differences \<Rightarrow>
              case getattr c ''agreement_score'' of Inl e \<Rightarrow> (Inl e, w')
              | Inr agreement_score \<Rightarrow>
              case getattr c ''recommendation'' of Inl e \<Rightarrow> (Inl e, w')
              | Inr recommendation \<Rightarrow>
                (Inr [''differences'' \<mapsto> differences,
                      ''agreement_score'' \<mapsto> agreement_score,
                      ''recommendation'' \<mapsto> recommendation,
                      ''timestamp'' \<mapsto> PStr (lib_utcnow lib w')], w')))"

subsection \<open>analyze\_with\_dual\_llm\<close>

definition analyze_with_dual_llm ::
  "'w library \<Rightarrow> string \<Rightarrow> string \<Rightarrow> string \<Rightarrow> bool \<Rightarrow> 'w \<Rightarrow>
   (py_exception + (string \<rightharpoonup> (string \<rightharpoonup> pyval))) \<times> 'w" where
  "analyze_with_dual_llm lib log_snippet ollama_model cloud_model compare w =
     (case configure_dspy ollama_model cloud_model of
        (ollama_lm', cloud_lm') \<Rightarrow>
          (let analyzer = SentinelAnalyzer_init (lib_ChainOfThought lib) ollama_lm' cloud_lm'
           in case forward analyzer log_snippet True w of
                (Inl e, w1) \<Rightarrow> (Inl e, w1)
              | (Inr res, w1) \<Rightarrow>
                  (if compare
                   then (case res ''ollama'' of
                           None \<Rightarrow> (Inr res, w1)
                         | Some ollama_result \<Rightarrow>
                             (case res ''cloud'' of
                                None \<Rightarrow> (Inr res, w1)
                              | Some cloud_result \<Rightarrow>
                                  (case LLMComparator_compare lib ollama_result
                                          cloud_result w1 of
                                     (Inl e, w2) \<Rightarrow> (Inl e, w2)
                                   | (Inr c, w2) \<Rightarrow>
                                       (Inr (res(''comparison'' \<mapsto> c)), w2))))
                   else (Inr res, w1))))"

subsection \<open>Observing the calls\<close>

text \<open>
  To see which backends a run calls, a predictor is wrapped so that every call is
  written, with the language model it was made for, to a list kept beside the world.
\<close>

definition traced :: "'w predictor \<Rightarrow> ('w \<times> LM list) predictor" where
  "traced p lm ws log_snippet =
     (case ws of
        (w, calls) \<Rightarrow>
          (case p lm w log_snippet of (r, w') \<Rightarrow> (r, (w', calls @ [lm]))))"

section \<open>Example values\<close>

text \<open>Concrete metrics, on a world that counts the calls made.\<close>

definition example_clock :: "nat \<Rightarrow> string" where
  "example_clock w = ''2026-01-01T00:00:00''"

definition scorer_high :: "nat \<Rightarrow> LLMTestCase \<Rightarrow> measured \<times> nat" where
  "scorer_high w tc = (Measured (3 / 4) (Some ''grounded in the log''), w + 1)"

definition scorer_down :: "nat \<Rightarrow> LLMTestCase \<Rightarrow> measured \<times> nat" where
  "scorer_down w tc = (Raises ''backend unavailable'', w + 1)"

definition example_evaluator :: "nat SentinelEvaluator" where
  "example_evaluator = SentinelEvaluator_init scorer_high scorer_down scorer_high scorer_high"

definition scorer_severity :: "nat \<Rightarrow> LLMTestCase \<Rightarrow> measured \<times> nat" where
  "scorer_severity w tc =
     (Measured (if actual_output tc = ''Severity: ERROR'' then 3 / 4 else 1 / 4) None, w + 1)"

definition example_evaluator2 :: "nat SentinelEvaluator" where
  "example_evaluator2 =
     SentinelEvaluator_init scorer_severity scorer_down scorer_high scorer_high"

definition example_batch :: "LLMTestCase list" where
  "example_batch =
     [create_test_case ''Error: Failed to install package'' ''Severity: ERROR'' None None,
      create_test_case ''Warning: Connection timeout'' ''Severity: WARN'' None None,
      create_test_case ''Installed 3 packages'' [] None None]"

definition scorer_flaky :: "nat \<Rightarrow> LLMTestCase \<Rightarrow> measured \<times> nat" where
  "scorer_flaky w tc =
     (if actual_output tc = [] then Raises ''empty output''
      else Measured (if actual_output tc = ''Severity: ERROR'' then 3 / 4 else 1 / 4) None,
      w + 1)"

definition flaky_evaluator :: "nat SentinelEvaluator" where
  "flaky_evaluator = SentinelEvaluator_init scorer_high scorer_flaky scorer_high scorer_high"

text \<open>Every case scores \<open>0.1\<close>, the double nearest to 1/10.\<close>

definition scorer_tenth :: "nat \<Rightarrow> LLMTestCase \<Rightarrow> measured \<times> nat" where
  "scorer_tenth w tc = (Measured (round64 (1 / 10)) None, w + 1)"

definition tenth_evaluator :: "nat SentinelEvaluator" where
  "tenth_evaluator = SentinelEvaluator_init scorer_tenth scorer_tenth scorer_tenth scorer_tenth"

text \<open>Concrete predictors.\<close>

definition prediction_error :: prediction where
  "prediction_error =
     [''severity'' \<mapsto> PStr ''ERROR'', ''category'' \<mapsto> PStr ''Dependency'',
      ''pattern_matched'' \<mapsto> PStr ''Failed to install package'',
      ''suggested_action'' \<mapsto> PStr ''Check the package index'',
      ''learning_candidate'' \<mapsto> PBool True]"


definition prediction_partial :: prediction where
  "prediction_partial =
     [''severity'' \<mapsto> PStr ''ERROR'', ''category'' \<mapsto> PStr ''Dependency'']"

definition predictor_ok :: "nat predictor" where
  "predictor_ok lm w log_snippet = (Inr prediction_error, w + 1)"


definition predictor_partial :: "nat predictor" where
  "predictor_partial lm w log_snippet = (Inr prediction_partial, w + 1)"


text \<open>The local server is down, the cloud answers.\<close>

definition predictor_local_down :: "nat predictor" where
  "predictor_local_down lm w log_snippet =
     (if model lm = ''llama3'' then Inl (BackendError ''connection refused'')
      else Inr prediction_error, w + 1)"

definition predictor_cloud_down :: "nat predictor" where
  "predictor_cloud_down lm w log_snippet =
     (if model lm = ''gpt-4o'' then Inl (BackendError ''rate limit'')
      else Inr prediction_error, w + 1)"

definition example_lm :: LM where
  "example_lm = fst (configure_dspy ''llama3'' ''gpt-4o'')"

definition example_cloud_lm :: LM where
  "example_cloud_lm = snd (configure_dspy ''llama3'' ''gpt-4o'')"

definition example_library :: "nat library" where
  "example_library =
     \<lparr>lib_ChainOfThought = predictor_ok,
      lib_Predict = (\<lambda>w a b.
        (Inr [''differences'' \<mapsto> PStr ''none'', ''agreement_score'' \<mapsto> PFloat 1,
              ''recommendation'' \<mapsto> PStr ''either''], w + 1)),
      lib_json_dumps = (\<lambda>d. ''{}''),
      lib_utcnow = example_clock\<rparr>"

section \<open>Properties of the rounding\<close>

lemma bit_length_nonpos [simp]: "a \<le> 0 \<Longrightarrow> bit_length a = 0"
  by (simp add: bit_length.simps [of a])

lemma bit_length_step: "0 < a \<Longrightarrow> bit_length a = 1 + bit_length (a div 2)"
  by (simp add: bit_length.simps [of a])

lemma bit_length_pos: "0 < a \<Longrightarrow> 0 < bit_length a"
proof (induction a rule: bit_length.induct)
  case (1 a)
  show ?case
  proof (cases "a div 2 \<le> 0")
    case True
    with "1.prems" show ?thesis by (simp add: bit_length_step)
  next
    case False
    with "1.IH" "1.prems" have "0 < bit_length (a div 2)" by simp
    with "1.prems" show ?thesis by (simp add: bit_length_step)
  qed
qed

lemma bit_length_bounds:
  "0 < a \<Longrightarrow> 2 ^ nat (bit_length a - 1) \<le> a \<and> a < 2 ^ nat (bit_length a)"
proof (induction a rule: bit_length.induct)
  case (1 a)
  show ?case
  proof (cases "a div 2 \<le> 0")
    case True
    with "1.prems" have "a = 1" by linarith
    then show ?thesis
      by (simp add: bit_length_step)
  next
    case False
    then have half: "0 < a div 2" by simp
    with "1.IH" "1.prems" have ih: "2 ^ nat (bit_length (a div 2) - 1) \<le> a div 2"
      "a div 2 < 2 ^ nat (bit_length (a div 2))"
      by simp_all
    define n where "n = nat (bit_length (a div 2) - 1)"
    from bit_length_pos [OF half] have n: "nat (bit_length (a div 2)) = Suc n"
      by (simp add: n_def)
    from "1.prems" have len: "bit_length a = 1 + bit_length (a div 2)"
      by (rule bit_length_step)
    from ih have "2 ^ n \<le> a div 2" "a div 2 < 2 ^ Suc n"
      by (simp_all add: n_def [symmetric] n)
    then have "2 ^ Suc n \<le> a" "a < 2 ^ Suc (Suc n)"
      by simp_all
    moreover have "nat (bit_length a - 1) = Suc n" "nat (bit_length a) = Suc (Suc n)"
      using bit_length_pos [OF half] by (simp_all add: len n_def)
    ultimately show ?thesis by simp
  qed
qed


text \<open>\<open>exponent2\<close> is the binary exponent.\<close>

lemma bit_length_powi:
  assumes "0 < a"
  shows "2 powi (bit_length a - 1) \<le> (of_int a :: rat)"
    and "(of_int a :: rat) < 2 powi bit_length a"
proof -
  from bit_length_pos [OF assms] have nn: "0 \<le> bit_length a - 1" "0 \<le> bit_length a"
    by simp_all
  from bit_length_bounds [OF assms]
  have "(of_int (2 ^ nat (bit_length a - 1)) :: rat) \<le> of_int a"
    and "(of_int a :: rat) < of_int (2 ^ nat (bit_length a))"
    by (simp_all only: of_int_le_iff of_int_less_iff)
  then show "2 powi (bit_length a - 1) \<le> (of_int a :: rat)"
    and "(of_int a :: rat) < 2 powi bit_length a"
    using nn by (simp_all add: power_int_def)
qed

lemma exponent2_bounds:
  assumes "0 < q"
  shows "2 powi exponent2 q \<le> q" and "q < 2 powi (exponent2 q + 1)"
proof -
  obtain a b where ab: "quotient_of q = (a, b)" by (cases "quotient_of q")
  from quotient_of_denom_pos [OF ab] have b: "0 < b" .
  from quotient_of_div [OF ab] have q: "q = of_int a / of_int b" .
  with assms b have a: "0 < a"
    by (simp add: zero_less_divide_iff)
  define e0 where "e0 = bit_length a - bit_length b"
  have e: "exponent2 q = (if q < 2 powi e0 then e0 - 1 else e0)"
    by (simp add: exponent2_def ab e0_def Let_def)
  have B: "(0::rat) < of_int b" using b by simp
  have low: "2 powi (e0 - 1) \<le> q"
  proof -
    have "2 powi (e0 - 1) = (2 powi (bit_length a - 1) :: rat) / 2 powi bit_length b"
      by (simp add: e0_def power_int_diff power_int_add algebra_simps)
    also have "\<dots> \<le> of_int a / of_int b"
      using bit_length_powi [OF a] bit_length_powi [OF b] B a
      by (intro frac_le) simp_all
    finally show ?thesis by (simp add: q)
  qed
  have high: "q < 2 powi (e0 + 1)"
  proof -
    have "of_int a / of_int b < (2 powi bit_length a :: rat) / 2 powi (bit_length b - 1)"
      using bit_length_powi [OF a] bit_length_powi [OF b] B a
      by (intro frac_less) simp_all
    also have "\<dots> = 2 powi (e0 + 1)"
      by (simp add: e0_def power_int_diff power_int_add algebra_simps)
    finally show ?thesis by (simp add: q)
  qed
  show "2 powi exponent2 q \<le> q"
    using low by (simp add: e)
  show "q < 2 powi (exponent2 q + 1)"
    using high by (simp add: e)
qed


text \<open>Rounding moves a number by at most half a unit in the last place.\<close>

lemma round_half_even_error: "\<bar>of_int (round_half_even s) - s\<bar> \<le> 1 / 2"
proof -
  have "of_int \<lfloor>s\<rfloor> \<le> s" "s < of_int \<lfloor>s\<rfloor> + 1"
    by linarith+
  then show ?thesis
    by (auto simp: round_half_even_def Let_def)
qed

lemma round_half_even_of_int [simp]: "round_half_even (of_int m) = m"
  by (simp add: round_half_even_def)

lemma round64_error:
  assumes "q \<noteq> 0"
  shows "\<bar>round64 q - q\<bar> \<le> 2 powi (exponent2 \<bar>q\<bar> - 53)"
proof -
  define e where "e = exponent2 \<bar>q\<bar> - 52"
  define m where "m = round_half_even (\<bar>q\<bar> / 2 powi e)"
  have pos: "(0::rat) < 2 powi e" by simp
  have r: "round64 q = sgn q * of_int m * 2 powi e"
    using assms by (simp add: round64_def e_def m_def Let_def)
  have "round64 q - q = sgn q * (of_int m - \<bar>q\<bar> / 2 powi e) * 2 powi e"
    unfolding r using pos by (simp add: algebra_simps abs_mult_sgn)
  then have "\<bar>round64 q - q\<bar> = \<bar>of_int m - \<bar>q\<bar> / 2 powi e\<bar> * 2 powi e"
    using assms by (simp add: abs_mult abs_sgn_eq)
  also have "\<dots> \<le> 1 / 2 * 2 powi e"
    using round_half_even_error [of "\<bar>q\<bar> / 2 powi e"] pos
    by (intro mult_right_mono) (simp_all add: m_def)
  also have "\<dots> = 2 powi (exponent2 \<bar>q\<bar> - 53)"
    by (simp add: e_def power_int_diff)
  finally show ?thesis .
qed

lemma exponent2_unique:
  assumes "2 powi k \<le> q" and "q < 2 powi (k + 1)"
  shows "exponent2 q = k"
proof -
  have "(0::rat) < 2 powi k" by simp
  with assms(1) have q: "0 < q" by linarith
  note b = exponent2_bounds [OF q]
  have "exponent2 q < k + 1"
  proof (rule ccontr)
    assume "\<not> exponent2 q < k + 1"
    then have "(2::rat) powi (k + 1) \<le> 2 powi exponent2 q"
      by (intro power_int_increasing) simp_all
    with b(1) assms(2) show False by linarith
  qed
  moreover have "k < exponent2 q + 1"
  proof (rule ccontr)
    assume "\<not> k < exponent2 q + 1"
    then have "(2::rat) powi (exponent2 q + 1) \<le> 2 powi k"
      by (intro power_int_increasing) simp_all
    with b(2) assms(1) show False by linarith
  qed
  ultimately show ?thesis by simp
qed

text \<open>A double, \<open>m * 2^k\<close> with a significand of 53 bits, is not changed by rounding.\<close>

lemma round64_double:
  assumes "2 ^ 52 \<le> m" and "m < 2 ^ 53"
  shows "round64 (of_int m * 2 powi k) = of_int m * 2 powi k"
proof -
  define q :: rat where "q = of_int m * 2 powi k"
  from assms have "(of_int (2 ^ 52) :: rat) \<le> of_int m" "(of_int m :: rat) < of_int (2 ^ 53)"
    by (simp_all only: of_int_le_iff of_int_less_iff)
  then have m: "(2::rat) ^ 52 \<le> of_int m" "(of_int m :: rat) < 2 ^ 53"
    by (simp_all only: of_int_power of_int_numeral)
  have pos: "(0::rat) < 2 powi k" by simp
  have q: "0 < q" using m pos by (simp add: q_def zero_less_mult_iff)
  have "2 powi (52 + k) \<le> q"
    using m(1) pos by (simp add: q_def power_int_add mult_right_mono)
  moreover have "q < 2 powi (52 + k + 1)"
  proof -
    have "q < 2 ^ 53 * 2 powi k"
      unfolding q_def using m(2) pos by (rule mult_strict_right_mono)
    also have "\<dots> = 2 powi (52 + k + 1)"
      by (simp add: power_int_add)
    finally show ?thesis .
  qed
  ultimately have e: "exponent2 q = 52 + k" by (rule exponent2_unique)
  have scaled: "q / 2 powi k = of_int m" by (simp add: q_def)
  from q have sign: "q \<noteq> 0" "\<bar>q\<bar> = q" "sgn q = 1" by simp_all
  have shift: "52 + k - 52 = k" by simp
  have "round64 q =
      sgn q * of_int (round_half_even (\<bar>q\<bar> / 2 powi (exponent2 \<bar>q\<bar> - 52))) *
      2 powi (exponent2 \<bar>q\<bar> - 52)"
    using sign(1) by (simp only: round64_def Let_def if_False)
  also have "\<dots> = of_int m * 2 powi k"
    by (simp only: sign e shift scaled round_half_even_of_int mult_1)
  finally show ?thesis by (simp only: q_def)
qed

section \<open>Properties of the evaluator\<close>

subsection \<open>The loops over the registry\<close>

lemma evaluate_analysis_loop_dom:
  "dom (fst (evaluate_analysis_loop tc ms (res, w))) = dom res \<union> fst ` set ms"
proof (induction ms arbitrary: res w)
  case Nil
  then show ?case by simp
next
  case (Cons p ms)
  obtain k mk where p: "p = (k, mk)" by (cases p)
  obtain outcome w' where step: "measure_m mk w tc = (outcome, w')"
    by (cases "measure_m mk w tc")
  show ?case
    unfolding p by (simp add: step Cons.IH del: fun_upd_apply)
qed

lemma evaluate_analysis_loop_other:
  "n \<notin> fst ` set ms \<Longrightarrow> fst (evaluate_analysis_loop tc ms (res, w)) n = res n"
  by (induction ms arbitrary: res w) (auto split: prod.splits)

lemma evaluate_analysis_loop_entry:
  "distinct (map fst ms) \<Longrightarrow> (n, m) \<in> set ms \<Longrightarrow>
   \<exists>w1. fst (evaluate_analysis_loop tc ms (res, w)) n =
           Some (evaluate_analysis_entry m (fst (measure_m m w1 tc)))"
proof (induction ms arbitrary: res w)
  case Nil
  then show ?case by simp
next
  case (Cons p ms)
  obtain k mk where p: "p = (k, mk)" by (cases p)
  obtain outcome w' where step: "measure_m mk w tc = (outcome, w')"
    by (cases "measure_m mk w tc")
  show ?case
  proof (cases "(n, m) = (k, mk)")
    case True
    with Cons.prems p have "n \<notin> fst ` set ms" by auto
    with True p step show ?thesis
      by (auto simp: evaluate_analysis_loop_other intro!: exI [of _ w])
  next
    case False
    with Cons.prems p have "(n, m) \<in> set ms" "distinct (map fst ms)" by auto
    from Cons.IH [OF this(2) this(1)] p step show ?thesis by simp
  qed
qed

lemma batch_evaluate_metrics_dom:
  "dom (fst (batch_evaluate_metrics tc ms (res, w))) = dom res \<union> fst ` set ms"
proof (induction ms arbitrary: res w)
  case Nil
  then show ?case by simp
next
  case (Cons p ms)
  obtain k mk where p: "p = (k, mk)" by (cases p)
  obtain outcome w' where step: "measure_m mk w tc = (outcome, w')"
    by (cases "measure_m mk w tc")
  show ?case
    unfolding p by (simp add: step Cons.IH del: fun_upd_apply)
qed

lemma batch_evaluate_metrics_other:
  "n \<notin> fst ` set ms \<Longrightarrow> fst (batch_evaluate_metrics tc ms (res, w)) n = res n"
  by (induction ms arbitrary: res w) (auto split: prod.splits)

lemma batch_evaluate_metrics_entry:
  "distinct (map fst ms) \<Longrightarrow> (n, m) \<in> set ms \<Longrightarrow>
   \<exists>w1. fst (batch_evaluate_metrics tc ms (res, w)) n =
           Some (batch_evaluate_entry m (fst (measure_m m w1 tc)))"
proof (induction ms arbitrary: res w)
  case Nil
  then show ?case by simp
next
  case (Cons p ms)
  obtain k mk where p: "p = (k, mk)" by (cases p)
  obtain outcome w' where step: "measure_m mk w tc = (outcome, w')"
    by (cases "measure_m mk w tc")
  show ?case
  proof (cases "(n, m) = (k, mk)")
    case True
    with Cons.prems p have "n \<notin> fst ` set ms" by auto
    with True p step show ?thesis
      by (auto simp: batch_evaluate_metrics_other intro!: exI [of _ w])
  next
    case False
    with Cons.prems p have "(n, m) \<in> set ms" "distinct (map fst ms)" by auto
    from Cons.IH [OF this(2) this(1)] p step show ?thesis by simp
  qed
qed

lemma batch_evaluate_cases_test_case:
  "map test_case (fst (batch_evaluate_cases ms tcs (rs, w))) = map test_case rs @ tcs"
  by (induction tcs arbitrary: rs w) (auto split: prod.splits)

lemma batch_evaluate_cases_dom:
  "map (\<lambda>r. dom (results r)) (fst (batch_evaluate_cases ms tcs (rs, w))) =
   map (\<lambda>r. dom (results r)) rs @ replicate (length tcs) (fst ` set ms)"
proof (induction tcs arbitrary: rs w)
  case Nil
  then show ?case by simp
next
  case (Cons tc tcs)
  obtain res w' where step: "batch_evaluate_metrics tc ms (Map.empty, w) = (res, w')"
    by (cases "batch_evaluate_metrics tc ms (Map.empty, w)")
  have "dom res = fst ` set ms"
    using batch_evaluate_metrics_dom [of tc ms Map.empty w] step by simp
  with Cons.IH [of "rs @ [\<lparr>test_case = tc, results = res\<rparr>]" w'] step show ?case
    by (simp add: replicate_app_Cons_same)
qed


lemma batch_evaluate_entry_shape:
  "(score (batch_evaluate_entry m outcome) = None) \<noteq>
   (error (batch_evaluate_entry m outcome) = None)"
  by (cases outcome) (simp_all add: batch_evaluate_entry_def)

lemma batch_evaluate_cases_entries:
  "distinct (map fst ms) \<Longrightarrow> x \<in> set (fst (batch_evaluate_cases ms tcs (rs, w))) \<Longrightarrow>
   (n, m) \<in> set ms \<Longrightarrow>
   x \<in> set rs \<or>
   (\<exists>tc w1. tc \<in> set tcs \<and> test_case x = tc \<and>
      results x n = Some (batch_evaluate_entry m (fst (measure_m m w1 tc))))"
proof (induction tcs arbitrary: rs w)
  case Nil
  then show ?case by simp
next
  case (Cons tc tcs)
  obtain res w' where step: "batch_evaluate_metrics tc ms (Map.empty, w) = (res, w')"
    by (cases "batch_evaluate_metrics tc ms (Map.empty, w)")
  from Cons.prems(2) step
  have "x \<in> set (fst (batch_evaluate_cases ms tcs
                 (rs @ [\<lparr>test_case = tc, results = res\<rparr>], w')))"
    by simp
  from Cons.IH [OF Cons.prems(1) this Cons.prems(3)]
  consider "x \<in> set rs" | "x = \<lparr>test_case = tc, results = res\<rparr>"
    | "\<exists>tc w1. tc \<in> set tcs \<and> test_case x = tc \<and>
         results x n = Some (batch_evaluate_entry m (fst (measure_m m w1 tc)))"
    by auto
  then show ?case
  proof cases
    case 1
    then show ?thesis by simp
  next
    case 2
    from batch_evaluate_metrics_entry [OF Cons.prems(1) Cons.prems(3), of tc Map.empty w] step
    obtain w1 where "res n = Some (batch_evaluate_entry m (fst (measure_m m w1 tc)))"
      by auto
    with 2 show ?thesis by auto
  next
    case 3
    then show ?thesis by auto
  qed
qed

lemma SentinelEvaluator_init_names:
  "map fst (metrics (SentinelEvaluator_init r h a f)) =
     [''relevance'', ''hallucination'', ''answer_relevancy'', ''faithfulness'']"
  by (simp add: SentinelEvaluator_init_def)

lemma SentinelEvaluator_init_distinct:
  "distinct (map fst (metrics (SentinelEvaluator_init r h a f)))"
  by (simp add: SentinelEvaluator_init_names)

lemma batch_evaluate_individual:
  "individual_results (fst (batch_evaluate utcnow self tcs w)) =
     fst (batch_evaluate_cases (metrics self) tcs ([], w))"
  by (simp add: batch_evaluate_def split: prod.splits)

text \<open>
  Claim C9. \<open>batch_evaluate\<close> returns one individual result per test case, in the order
  of the input list, and the results of each hold an entry for exactly the four metrics
  of the registry; every such entry either carries a score or carries an error.
\<close>

theorem batch_evaluate_one_result_per_case:
  "(let rs = individual_results
               (fst (batch_evaluate utcnow (SentinelEvaluator_init r h a f) tcs w))
    in length rs = length tcs \<and>
       map test_case rs = tcs \<and>
       map (\<lambda>x. dom (results x)) rs =
         replicate (length tcs)
           {''relevance'', ''hallucination'', ''answer_relevancy'', ''faithfulness''} \<and>
       list_all (\<lambda>x. list_all (\<lambda>n. case results x n of
                                     None \<Rightarrow> False
                                   | Some e \<Rightarrow> (score e = None) \<noteq> (error e = None))
                   [''relevance'', ''hallucination'', ''answer_relevancy'', ''faithfulness''])
         rs)"
proof -
  define self :: "'a SentinelEvaluator" where "self = SentinelEvaluator_init r h a f"
  define rs where "rs = individual_results (fst (batch_evaluate utcnow self tcs w))"
  have rs: "rs = fst (batch_evaluate_cases (metrics self) tcs ([], w))"
    by (simp add: rs_def batch_evaluate_individual)
  have names: "map fst (metrics self) =
      [''relevance'', ''hallucination'', ''answer_relevancy'', ''faithfulness'']"
    by (simp add: self_def SentinelEvaluator_init_names)
  have dist: "distinct (map fst (metrics self))"
    by (simp add: self_def SentinelEvaluator_init_distinct)
  have order: "map test_case rs = tcs"
    using batch_evaluate_cases_test_case [of "metrics self" tcs "[]" w] by (simp add: rs)
  then have len: "length rs = length tcs"
    by (metis length_map)
  have "fst ` set (metrics self) = set (map fst (metrics self))" by simp
  also have "\<dots> = {''relevance'', ''hallucination'', ''answer_relevancy'', ''faithfulness''}"
    unfolding names by simp
  finally have keys: "fst ` set (metrics self) =
      {''relevance'', ''hallucination'', ''answer_relevancy'', ''faithfulness''}" .
  have doms: "map (\<lambda>x. dom (results x)) rs =
      replicate (length tcs)
        {''relevance'', ''hallucination'', ''answer_relevancy'', ''faithfulness''}"
    using batch_evaluate_cases_dom [of "metrics self" tcs "[]" w] by (simp add: rs keys)
  have shape: "case results x n of None \<Rightarrow> False
               | Some e \<Rightarrow> (score e = None) \<noteq> (error e = None)"
    if x: "x \<in> set rs" and n: "n \<in> fst ` set (metrics self)" for x n
  proof -
    from n obtain m where "(n, m) \<in> set (metrics self)" by auto
    from batch_evaluate_cases_entries [OF dist x [unfolded rs] this]
    obtain tc w1 where "results x n = Some (batch_evaluate_entry m (fst (measure_m m w1 tc)))"
      by auto
    then show ?thesis by (simp add: batch_evaluate_entry_shape)
  qed
  have "list_all (\<lambda>x. list_all (\<lambda>n. case results x n of
                                     None \<Rightarrow> False
                                   | Some e \<Rightarrow> (score e = None) \<noteq> (error e = None))
                   [''relevance'', ''hallucination'', ''answer_relevancy'', ''faithfulness''])
         rs"
    unfolding list_all_iff
  proof (intro ballI)
    fix x n
    assume "x \<in> set rs"
      and "n \<in> set [''relevance'', ''hallucination'', ''answer_relevancy'', ''faithfulness'']"
    then show "case results x n of None \<Rightarrow> False
               | Some e \<Rightarrow> (score e = None) \<noteq> (error e = None)"
      using shape [of x n] keys by simp
  qed
  with len order doms show ?thesis
    unfolding rs_def self_def Let_def by blast
qed

subsection \<open>Rounding of the literals\<close>

lemma round64_7_10: "round64 (7 / 10) = 3152519739159347 / 4503599627370496"
  by code_simp

lemma round64_5_10: "round64 (5 / 10) = 1 / 2"
  by code_simp

lemma round64_0 [simp]: "round64 0 = 0"
  by (simp add: round64_def)

subsection \<open>Isolation of a failing metric\<close>

lemma evaluate_analysis_loop_append:
  "evaluate_analysis_loop tc (xs @ ys) s =
   evaluate_analysis_loop tc ys (evaluate_analysis_loop tc xs s)"
proof (induction xs arbitrary: s)
  case Nil
  show ?case by (cases s) simp
next
  case (Cons p xs)
  obtain k mk where p: "p = (k, mk)" by (cases p)
  obtain res w where s: "s = (res, w)" by (cases s)
  show ?case
    unfolding p s by (simp add: Cons.IH split: prod.splits)
qed

lemma evaluate_analysis_loop_indep:
  "k \<in> fst ` set ms \<Longrightarrow>
   fst (evaluate_analysis_loop tc ms (res, w)) k =
   fst (evaluate_analysis_loop tc ms (res', w)) k"
proof (induction ms arbitrary: res res' w)
  case Nil
  then show ?case by simp
next
  case (Cons p ms)
  obtain a b where p: "p = (a, b)" by (cases p)
  obtain outcome w' where step: "measure_m b w tc = (outcome, w')"
    by (cases "measure_m b w tc")
  show ?case
  proof (cases "k \<in> fst ` set ms")
    case True
    from Cons.IH [OF True] show ?thesis
      unfolding p by (simp add: step)
  next
    case False
    with Cons.prems p have "k = a" by auto
    with False show ?thesis
      unfolding p by (simp add: step evaluate_analysis_loop_other)
  qed
qed

lemma evaluate_analysis_results:
  "results (fst (evaluate_analysis utcnow self log_snippet analysis expected w)) =
   fst (evaluate_analysis_loop
          (create_test_case log_snippet analysis expected (Some ''Installation log analysis''))
          (metrics self) (Map.empty, w))"
  by (simp add: evaluate_analysis_def Let_def split: prod.splits)

text \<open>
  Claim C1. When the scoring function of one metric raises, \<open>evaluate_analysis\<close> still
  returns: the failing metric gets the error entry with \<open>passed = False\<close>, every metric
  of the registry has an entry, the entries of the metrics scored before are kept, and
  the metrics after the failing one are scored as they are when run on their own from
  the world the failure left.
\<close>

theorem evaluate_analysis_isolates_failure:
  assumes registry: "metrics self = before @ (n, m) # after"
    and names: "distinct (map fst (metrics self))"
    and tc: "tc = create_test_case log_snippet analysis expected
                    (Some ''Installation log analysis'')"
    and earlier: "evaluate_analysis_loop tc before (Map.empty, w) = (r1, w1)"
    and failure: "measure_m m w1 tc = (Raises msg, w2)"
  shows "(let res = results (fst (evaluate_analysis utcnow self log_snippet analysis
                                     expected w))
          in res n = Some \<lparr>score = None, threshold = None, passed = Some False,
                            reason = None, error = Some msg\<rparr> \<and>
             dom res = fst ` set (metrics self) \<and>
             (\<forall>k \<in> fst ` set before. res k = r1 k) \<and>
             (\<forall>k \<in> fst ` set after.
                res k = fst (evaluate_analysis_loop tc after (Map.empty, w2)) k))"
proof -
  define err where "err = \<lparr>score = None, threshold = None, passed = Some False,
                            reason = None, error = Some msg\<rparr>"
  define res where
    "res = results (fst (evaluate_analysis utcnow self log_snippet analysis expected w))"
  have res_all: "res = fst (evaluate_analysis_loop tc (metrics self) (Map.empty, w))"
    by (simp add: res_def evaluate_analysis_results tc)
  have entry: "evaluate_analysis_entry m (Raises msg) = err"
    by (simp add: evaluate_analysis_entry_def err_def)
  have res_after: "res = fst (evaluate_analysis_loop tc after (r1(n \<mapsto> err), w2))"
    unfolding res_all registry evaluate_analysis_loop_append earlier
    by (simp add: failure entry)
  from names registry have n_after: "n \<notin> fst ` set after"
    and n_before: "n \<notin> fst ` set before"
    and disjoint: "fst ` set before \<inter> fst ` set after = {}"
    by auto
  have "res n = Some err"
    unfolding res_after using n_after by (simp add: evaluate_analysis_loop_other)
  moreover have "dom res = fst ` set (metrics self)"
    unfolding res_all by (simp add: evaluate_analysis_loop_dom)
  moreover have "res k = r1 k" if "k \<in> fst ` set before" for k
  proof -
    from that disjoint n_before have "k \<notin> fst ` set after" "k \<noteq> n" by auto
    then show ?thesis
      unfolding res_after by (simp add: evaluate_analysis_loop_other)
  qed
  moreover have "res k = fst (evaluate_analysis_loop tc after (Map.empty, w2)) k"
    if "k \<in> fst ` set after" for k
    unfolding res_after by (rule evaluate_analysis_loop_indep [OF that])
  ultimately show ?thesis
    unfolding Let_def res_def [symmetric] err_def by blast
qed


theorem evaluate_analysis_isolates_failure_witness:
  "results (fst (evaluate_analysis example_clock example_evaluator
                   ''Error: Failed to install package'' ''Severity: ERROR'' (Some ''ERROR'') 0))
     ''hallucination'' =
     Some \<lparr>score = None, threshold = None, passed = Some False, reason = None,
           error = Some ''backend unavailable''\<rparr> \<and>
   dom (results (fst (evaluate_analysis example_clock example_evaluator
                   ''Error: Failed to install package'' ''Severity: ERROR'' (Some ''ERROR'') 0))) =
     {''relevance'', ''hallucination'', ''answer_relevancy'', ''faithfulness''} \<and>
   results (fst (evaluate_analysis example_clock example_evaluator
                   ''Error: Failed to install package'' ''Severity: ERROR'' (Some ''ERROR'') 0))
     ''relevance'' =
     Some \<lparr>score = Some (3 / 4), threshold = Some (round64 (7 / 10)), passed = Some True,
           reason = Some (Some ''grounded in the log''), error = None\<rparr> \<and>
   results (fst (evaluate_analysis example_clock example_evaluator
                   ''Error: Failed to install package'' ''Severity: ERROR'' (Some ''ERROR'') 0))
     ''faithfulness'' =
     Some \<lparr>score = Some (3 / 4), threshold = Some (round64 (7 / 10)), passed = Some True,
           reason = Some (Some ''grounded in the log''), error = None\<rparr>"
proof -
  define tc where "tc = create_test_case ''Error: Failed to install package''
    ''Severity: ERROR'' (Some ''ERROR'') (Some ''Installation log analysis'')"
  define high :: "nat metric" where
    "high = \<lparr>threshold_m = round64 (7 / 10), measure_m = scorer_high\<rparr>"
  define down :: "nat metric" where
    "down = \<lparr>threshold_m = round64 (5 / 10), measure_m = scorer_down\<rparr>"
  define good where
    "good = \<lparr>score = Some (3 / 4), threshold = Some (round64 (7 / 10)), passed = Some True,
             reason = Some (Some ''grounded in the log''), error = None\<rparr>"
  have entry: "evaluate_analysis_entry high (Measured (3 / 4) (Some ''grounded in the log''))
      = good"
    by (simp add: evaluate_analysis_entry_def high_def good_def round64_7_10)
  have registry: "metrics example_evaluator =
      [(''relevance'', high)] @ (''hallucination'', down) #
      [(''answer_relevancy'', high), (''faithfulness'', high)]"
    by (simp add: example_evaluator_def SentinelEvaluator_init_def high_def down_def)
  have names: "distinct (map fst (metrics example_evaluator))"
    by (simp add: registry)
  have earlier: "evaluate_analysis_loop tc [(''relevance'', high)] (Map.empty, 0) =
      ([''relevance'' \<mapsto> good], 1)"
    by (simp add: high_def [symmetric] entry) (simp add: high_def scorer_high_def entry [unfolded high_def])
  have failure: "measure_m down 1 tc = (Raises ''backend unavailable'', 2)"
    by (simp add: down_def scorer_down_def)
  have later: "fst (evaluate_analysis_loop tc
        [(''answer_relevancy'', high), (''faithfulness'', high)] (Map.empty, 2)) ''faithfulness''
      = Some good"
    by (simp add: high_def scorer_high_def entry [unfolded high_def])
  from evaluate_analysis_isolates_failure
         [OF registry names tc_def earlier failure, of example_clock] later
  show ?thesis
    by (simp add: Let_def registry good_def)
qed

subsection \<open>Comparison of two analyses\<close>

lemma round64_1_2: "round64 (1 / 2) = 1 / 2"
  by code_simp

lemma py_sub_same [simp]: "py_sub x x = 0"
  by (simp add: py_sub_def)

lemma evaluate_comparison_loop_other:
  "n \<notin> set ns \<Longrightarrow> evaluate_comparison_loop oe ce ns cmp n = cmp n"
  by (induction ns arbitrary: cmp) (simp_all add: Let_def)

lemma evaluate_comparison_loop_dom:
  "dom (evaluate_comparison_loop oe ce ns cmp) = dom cmp \<union> set ns"
  by (induction ns arbitrary: cmp) (simp_all add: Let_def del: fun_upd_apply)

lemma evaluate_comparison_loop_entry:
  "n \<in> set ns \<Longrightarrow>
   evaluate_comparison_loop oe ce ns cmp n =
     Some \<lparr>ollama = get_score (results oe) n, cloud = get_score (results ce) n,
           difference = py_sub (get_score (results ce) n) (get_score (results oe) n),
           better = (if get_score (results oe) n < get_score (results ce) n
                     then ''cloud'' else ''ollama'')\<rparr>"
proof (induction ns arbitrary: cmp)
  case Nil
  then show ?case by simp
next
  case (Cons k ns)
  show ?case
  proof (cases "n \<in> set ns")
    case True
    from Cons.IH [OF True] show ?thesis by (simp add: Let_def)
  next
    case False
    with Cons.prems have "n = k" by simp
    with False show ?thesis
      by (simp add: Let_def evaluate_comparison_loop_other)
  qed
qed

lemma evaluate_comparison_parts:
  "ollama_evaluation (fst (evaluate_comparison utcnow self log_snippet oa ca w)) =
     fst (evaluate_analysis utcnow self log_snippet oa None w)"
  "cloud_evaluation (fst (evaluate_comparison utcnow self log_snippet oa ca w)) =
     fst (evaluate_analysis utcnow self log_snippet ca None
            (snd (evaluate_analysis utcnow self log_snippet oa None w)))"
  "comparison (fst (evaluate_comparison utcnow self log_snippet oa ca w)) =
     evaluate_comparison_loop
       (ollama_evaluation (fst (evaluate_comparison utcnow self log_snippet oa ca w)))
       (cloud_evaluation (fst (evaluate_comparison utcnow self log_snippet oa ca w)))
       (map fst (metrics self)) Map.empty"
  by (simp_all add: evaluate_comparison_def split: prod.splits)

lemma get_score_bind:
  "get_score d n = (case Option.bind (d n) score of None \<Rightarrow> 0 | Some s \<Rightarrow> s)"
  by (simp add: get_score_def split: option.splits)

text \<open>
  Claim C7. In \<open>evaluate_comparison\<close>, every metric of the registry has a comparison
  entry: a side whose evaluation has no numeric score for the metric contributes 0, the
  difference is the cloud score minus the local score (the subtraction of floats), and
  \<open>better\<close> is the cloud side when its score is strictly higher and the local side
  otherwise.
\<close>

theorem evaluate_comparison_entry:
  assumes "n \<in> fst ` set (metrics self)"
  shows "(let r = fst (evaluate_comparison utcnow self log_snippet ollama_analysis
                         cloud_analysis w);
              local_score = Option.bind (results (ollama_evaluation r) n) score;
              cloud_score = Option.bind (results (cloud_evaluation r) n) score
          in \<exists>c. comparison r n = Some c \<and>
                 ollama c = (case local_score of None \<Rightarrow> 0 | Some s \<Rightarrow> s) \<and>
                 cloud c = (case cloud_score of None \<Rightarrow> 0 | Some s \<Rightarrow> s) \<and>
                 difference c = py_sub (cloud c) (ollama c) \<and>
                 better c = (if ollama c < cloud c then ''cloud'' else ''ollama''))"
proof -
  from assms have "n \<in> set (map fst (metrics self))" by simp
  then show ?thesis
    unfolding Let_def evaluate_comparison_parts(3)
    by (simp only: evaluate_comparison_loop_entry get_score_bind) simp
qed


theorem evaluate_comparison_entry_witness:
  "comparison (fst (evaluate_comparison example_clock example_evaluator2
                      ''Error: Failed to install package'' ''Severity: INFO''
                      ''Severity: ERROR'' 0)) ''relevance'' =
     Some \<lparr>ollama = 1 / 4, cloud = 3 / 4, difference = 1 / 2, better = ''cloud''\<rparr> \<and>
   comparison (fst (evaluate_comparison example_clock example_evaluator2
                      ''Error: Failed to install package'' ''Severity: INFO''
                      ''Severity: ERROR'' 0)) ''hallucination'' =
     Some \<lparr>ollama = 0, cloud = 0, difference = 0, better = ''ollama''\<rparr>"
proof -
  define r where "r = fst (evaluate_comparison example_clock example_evaluator2
    ''Error: Failed to install package'' ''Severity: INFO'' ''Severity: ERROR'' 0)"
  have names: "''relevance'' \<in> fst ` set (metrics example_evaluator2)"
    "''hallucination'' \<in> fst ` set (metrics example_evaluator2)"
    by (simp_all add: example_evaluator2_def SentinelEvaluator_init_def)
  have local: "Option.bind (results (ollama_evaluation r) ''relevance'') score = Some (1 / 4)"
    "Option.bind (results (ollama_evaluation r) ''hallucination'') score = None"
    by (simp_all add: r_def evaluate_comparison_parts evaluate_analysis_results
        example_evaluator2_def SentinelEvaluator_init_def scorer_severity_def scorer_down_def
        scorer_high_def evaluate_analysis_entry_def create_test_case_def)
  have remote: "Option.bind (results (cloud_evaluation r) ''relevance'') score = Some (3 / 4)"
    "Option.bind (results (cloud_evaluation r) ''hallucination'') score = None"
    by (simp_all add: r_def evaluate_comparison_parts evaluate_analysis_results
        example_evaluator2_def SentinelEvaluator_init_def scorer_severity_def scorer_down_def
        scorer_high_def evaluate_analysis_entry_def create_test_case_def)
  have sub: "py_sub (3 / 4) (1 / 4) = 1 / 2"
    using round64_1_2 by (simp add: py_sub_def)
  have "\<exists>c. comparison r ''relevance'' = Some c \<and> ollama c = 1 / 4 \<and> cloud c = 3 / 4 \<and>
      difference c = py_sub (cloud c) (ollama c) \<and>
      better c = (if ollama c < cloud c then ''cloud'' else ''ollama'')"
    using evaluate_comparison_entry [OF names(1), of example_clock
      "''Error: Failed to install package''" "''Severity: INFO''" "''Severity: ERROR''" 0]
    unfolding Let_def r_def [symmetric] local remote by (simp only: option.case)
  then obtain c1 where c1: "comparison r ''relevance'' = Some c1" "ollama c1 = 1 / 4"
    "cloud c1 = 3 / 4" "difference c1 = py_sub (cloud c1) (ollama c1)"
    "better c1 = (if ollama c1 < cloud c1 then ''cloud'' else ''ollama'')"
    by blast
  have "\<exists>c. comparison r ''hallucination'' = Some c \<and> ollama c = 0 \<and> cloud c = 0 \<and>
      difference c = py_sub (cloud c) (ollama c) \<and>
      better c = (if ollama c < cloud c then ''cloud'' else ''ollama'')"
    using evaluate_comparison_entry [OF names(2), of example_clock
      "''Error: Failed to install package''" "''Severity: INFO''" "''Severity: ERROR''" 0]
    unfolding Let_def r_def [symmetric] local remote by (simp only: option.case)
  then obtain c2 where c2: "comparison r ''hallucination'' = Some c2" "ollama c2 = 0"
    "cloud c2 = 0" "difference c2 = py_sub (cloud c2) (ollama c2)"
    "better c2 = (if ollama c2 < cloud c2 then ''cloud'' else ''ollama'')"
    by blast
  have d1: "difference c1 = 1 / 2"
    unfolding c1(4) c1(2) c1(3) by (rule sub)
  have b1: "better c1 = ''cloud''"
    unfolding c1(5) c1(2) c1(3) by simp
  have "c1 = \<lparr>ollama = 1 / 4, cloud = 3 / 4, difference = 1 / 2, better = ''cloud''\<rparr>"
    using c1(2,3) d1 b1 by (cases c1) simp
  moreover have "c2 = \<lparr>ollama = 0, cloud = 0, difference = 0, better = ''ollama''\<rparr>"
    using c2(2-5) by (cases c2) simp
  ultimately show ?thesis
    using c1(1) c2(1) unfolding r_def by simp
qed

subsection \<open>Deterministic metrics\<close>

lemma evaluate_analysis_loop_deterministic:
  assumes "\<forall>(k, mk) \<in> set ms. \<forall>w w'. fst (measure_m mk w tc) = fst (measure_m mk w' tc)"
  shows "fst (evaluate_analysis_loop tc ms (res, w)) =
         fst (evaluate_analysis_loop tc ms (res, w'))"
  using assms
proof (induction ms arbitrary: res w w')
  case Nil
  then show ?case by simp
next
  case (Cons p ms)
  obtain k mk where p: "p = (k, mk)" by (cases p)
  obtain o1 w1 where s1: "measure_m mk w tc = (o1, w1)" by (cases "measure_m mk w tc")
  obtain o2 w2 where s2: "measure_m mk w' tc = (o2, w2)" by (cases "measure_m mk w' tc")
  from Cons.prems p have "fst (measure_m mk w tc) = fst (measure_m mk w' tc)" by auto
  with s1 s2 have same: "o1 = o2" by simp
  from Cons.prems have
    "\<forall>(k, mk) \<in> set ms. \<forall>w w'. fst (measure_m mk w tc) = fst (measure_m mk w' tc)"
    by simp
  from Cons.IH [OF this] show ?case
    unfolding p by (simp add: s1 s2 same)
qed

text \<open>
  Claim C8. When every metric is deterministic (what it reports does not depend on the
  world), comparing an output text with itself gives, for every metric of the registry,
  equal scores, difference 0 and the local side as \<open>better\<close>.
\<close>

theorem evaluate_comparison_identical_outputs:
  assumes deterministic:
      "\<forall>(k, mk) \<in> set (metrics self).
         \<forall>w w' tc. fst (measure_m mk w tc) = fst (measure_m mk w' tc)"
    and registered: "n \<in> fst ` set (metrics self)"
  shows "\<exists>c. comparison (fst (evaluate_comparison utcnow self log_snippet A A w)) n = Some c \<and>
             ollama c = cloud c \<and> difference c = 0 \<and> better c = ''ollama''"
proof -
  define r where "r = fst (evaluate_comparison utcnow self log_snippet A A w)"
  define tc where
    "tc = create_test_case log_snippet A None (Some ''Installation log analysis'')"
  from deterministic have
    "\<forall>(k, mk) \<in> set (metrics self). \<forall>w w'. fst (measure_m mk w tc) = fst (measure_m mk w' tc)"
    by blast
  from evaluate_analysis_loop_deterministic [OF this]
  have "results (ollama_evaluation r) = results (cloud_evaluation r)"
    unfolding r_def evaluate_comparison_parts evaluate_analysis_results tc_def by blast
  then have same: "get_score (results (ollama_evaluation r)) n =
      get_score (results (cloud_evaluation r)) n"
    by simp
  from registered have "n \<in> set (map fst (metrics self))" by simp
  then have "comparison r n =
     Some \<lparr>ollama = get_score (results (ollama_evaluation r)) n,
           cloud = get_score (results (cloud_evaluation r)) n,
           difference = py_sub (get_score (results (cloud_evaluation r)) n)
                          (get_score (results (ollama_evaluation r)) n),
           better = (if get_score (results (ollama_evaluation r)) n
                        < get_score (results (cloud_evaluation r)) n
                     then ''cloud'' else ''ollama'')\<rparr>"
    unfolding r_def evaluate_comparison_parts(3) by (rule evaluate_comparison_loop_entry)
  with same show ?thesis
    unfolding r_def by simp
qed

theorem evaluate_comparison_identical_outputs_witness:
  "comparison (fst (evaluate_comparison example_clock example_evaluator2
                      ''Error: Failed to install package'' ''Severity: ERROR''
                      ''Severity: ERROR'' 0)) ''relevance'' =
     Some \<lparr>ollama = 3 / 4, cloud = 3 / 4, difference = 0, better = ''ollama''\<rparr>"
proof -
  define r where "r = fst (evaluate_comparison example_clock example_evaluator2
    ''Error: Failed to install package'' ''Severity: ERROR'' ''Severity: ERROR'' 0)"
  have deterministic: "\<forall>(k, mk) \<in> set (metrics example_evaluator2).
      \<forall>w w' tc. fst (measure_m mk w tc) = fst (measure_m mk w' tc)"
    by (simp add: example_evaluator2_def SentinelEvaluator_init_def scorer_severity_def
        scorer_down_def scorer_high_def)
  have registered: "''relevance'' \<in> fst ` set (metrics example_evaluator2)"
    by (simp add: example_evaluator2_def SentinelEvaluator_init_def)
  have local: "get_score (results (ollama_evaluation r)) ''relevance'' = 3 / 4"
    by (simp add: r_def evaluate_comparison_parts evaluate_analysis_results get_score_def
        example_evaluator2_def SentinelEvaluator_init_def scorer_severity_def scorer_down_def
        scorer_high_def evaluate_analysis_entry_def create_test_case_def)
  have entry: "comparison r ''relevance'' = Some c \<Longrightarrow> ollama c = 3 / 4" for c
    using registered unfolding r_def evaluate_comparison_parts(3)
    by (simp only: evaluate_comparison_loop_entry set_map local [unfolded r_def]) auto
  from evaluate_comparison_identical_outputs [OF deterministic registered, of example_clock
      "''Error: Failed to install package''" "''Severity: ERROR''" 0]
  obtain c where c: "comparison r ''relevance'' = Some c" "ollama c = cloud c"
    "difference c = 0" "better c = ''ollama''"
    unfolding r_def by blast
  with entry [OF c(1)] show ?thesis
    unfolding r_def [symmetric] by (cases c) simp
qed


subsection \<open>The whole registry\<close>

text \<open>
  Claim C10. The comparison of \<open>evaluate_comparison\<close> has an entry for exactly the four
  metrics of the registry, whatever the metrics did; \<open>better\<close> is always \<open>ollama\<close> or
  \<open>cloud\<close>; and a metric without a score on both sides is reported with both scores
  0, difference 0 and \<open>better = ollama\<close>.
\<close>

theorem evaluate_comparison_covers_registry:
  "(let r = fst (evaluate_comparison utcnow (SentinelEvaluator_init rl h a f) log_snippet
                   ollama_analysis cloud_analysis w)
    in dom (comparison r) =
         {''relevance'', ''hallucination'', ''answer_relevancy'', ''faithfulness''} \<and>
       (\<forall>n c. comparison r n = Some c \<longrightarrow> better c = ''ollama'' \<or> better c = ''cloud'') \<and>
       (\<forall>n \<in> {''relevance'', ''hallucination'', ''answer_relevancy'', ''faithfulness''}.
          Option.bind (results (ollama_evaluation r) n) score = None \<longrightarrow>
          Option.bind (results (cloud_evaluation r) n) score = None \<longrightarrow>
          comparison r n =
            Some \<lparr>ollama = 0, cloud = 0, difference = 0, better = ''ollama''\<rparr>))"
proof -
  define self :: "'a SentinelEvaluator" where "self = SentinelEvaluator_init rl h a f"
  define r where
    "r = fst (evaluate_comparison utcnow self log_snippet ollama_analysis cloud_analysis w)"
  have names: "set (map fst (metrics self)) =
      {''relevance'', ''hallucination'', ''answer_relevancy'', ''faithfulness''}"
    unfolding self_def SentinelEvaluator_init_names by simp
  have cmp: "comparison r =
      evaluate_comparison_loop (ollama_evaluation r) (cloud_evaluation r)
        (map fst (metrics self)) Map.empty"
    unfolding r_def by (rule evaluate_comparison_parts(3))
  have keys: "dom (comparison r) =
      {''relevance'', ''hallucination'', ''answer_relevancy'', ''faithfulness''}"
    unfolding cmp evaluate_comparison_loop_dom names by simp
  have entry: "comparison r n =
       Some \<lparr>ollama = get_score (results (ollama_evaluation r)) n,
             cloud = get_score (results (cloud_evaluation r)) n,
             difference = py_sub (get_score (results (cloud_evaluation r)) n)
                            (get_score (results (ollama_evaluation r)) n),
             better = (if get_score (results (ollama_evaluation r)) n
                          < get_score (results (cloud_evaluation r)) n
                       then ''cloud'' else ''ollama'')\<rparr>"
    if "n \<in> {''relevance'', ''hallucination'', ''answer_relevancy'', ''faithfulness''}" for n
    unfolding cmp using that [folded names] by (rule evaluate_comparison_loop_entry)
  have side: "better c = ''ollama'' \<or> better c = ''cloud''" if "comparison r n = Some c" for n c
  proof -
    from that have "n \<in> dom (comparison r)" by blast
    with keys have "n \<in> {''relevance'', ''hallucination'', ''answer_relevancy'',
      ''faithfulness''}" by simp
    from entry [OF this] that show ?thesis by auto
  qed
  have zero: "comparison r n =
      Some \<lparr>ollama = 0, cloud = 0, difference = 0, better = ''ollama''\<rparr>"
    if "n \<in> {''relevance'', ''hallucination'', ''answer_relevancy'', ''faithfulness''}"
      and "Option.bind (results (ollama_evaluation r) n) score = None"
      and "Option.bind (results (cloud_evaluation r) n) score = None" for n
    unfolding entry [OF that(1)] get_score_bind that(2) that(3) by simp
  show ?thesis
    unfolding Let_def self_def [symmetric] r_def [symmetric]
  proof (intro conjI allI impI ballI)
    show "dom (comparison r) =
        {''relevance'', ''hallucination'', ''answer_relevancy'', ''faithfulness''}"
      by (rule keys)
  next
    fix n c
    assume "comparison r n = Some c"
    then show "better c = ''ollama'' \<or> better c = ''cloud''" by (rule side)
  next
    fix n
    assume "n \<in> {''relevance'', ''hallucination'', ''answer_relevancy'', ''faithfulness''}"
      and "Option.bind (results (ollama_evaluation r) n) score = None"
      and "Option.bind (results (cloud_evaluation r) n) score = None"
    then show "comparison r n =
        Some \<lparr>ollama = 0, cloud = 0, difference = 0, better = ''ollama''\<rparr>"
      by (rule zero)
  qed
qed

theorem evaluate_comparison_covers_registry_witness:
  "dom (comparison (fst (evaluate_comparison example_clock
          (SentinelEvaluator_init scorer_high scorer_down scorer_high scorer_high)
          ''Error: Failed to install package'' ''Severity: INFO'' ''Severity: ERROR'' 0))) =
     {''relevance'', ''hallucination'', ''answer_relevancy'', ''faithfulness''} \<and>
   comparison (fst (evaluate_comparison example_clock
          (SentinelEvaluator_init scorer_high scorer_down scorer_high scorer_high)
          ''Error: Failed to install package'' ''Severity: INFO'' ''Severity: ERROR'' 0))
     ''hallucination'' =
     Some \<lparr>ollama = 0, cloud = 0, difference = 0, better = ''ollama''\<rparr>"
proof -
  define r where "r = fst (evaluate_comparison example_clock
      (SentinelEvaluator_init scorer_high scorer_down scorer_high scorer_high)
      ''Error: Failed to install package'' ''Severity: INFO'' ''Severity: ERROR'' 0)"
  have local: "Option.bind (results (ollama_evaluation r) ''hallucination'') score = None"
    by (simp add: r_def evaluate_comparison_parts evaluate_analysis_results
        SentinelEvaluator_init_def scorer_down_def scorer_high_def
        evaluate_analysis_entry_def create_test_case_def)
  have remote: "Option.bind (results (cloud_evaluation r) ''hallucination'') score = None"
    by (simp add: r_def evaluate_comparison_parts evaluate_analysis_results
        SentinelEvaluator_init_def scorer_down_def scorer_high_def
        evaluate_analysis_entry_def create_test_case_def)
  note all = evaluate_comparison_covers_registry [of example_clock scorer_high scorer_down
      scorer_high scorer_high "''Error: Failed to install package''" "''Severity: INFO''"
      "''Severity: ERROR''" 0, unfolded Let_def, folded r_def]
  from all have keys: "dom (comparison r) =
      {''relevance'', ''hallucination'', ''answer_relevancy'', ''faithfulness''}"
    by (rule conjunct1)
  from all have "\<forall>n \<in> {''relevance'', ''hallucination'', ''answer_relevancy'', ''faithfulness''}.
      Option.bind (results (ollama_evaluation r) n) score = None \<longrightarrow>
      Option.bind (results (cloud_evaluation r) n) score = None \<longrightarrow>
      comparison r n = Some \<lparr>ollama = 0, cloud = 0, difference = 0, better = ''ollama''\<rparr>"
    by (elim conjE)
  from this [rule_format, of "''hallucination''", OF _ local remote]
  have "comparison r ''hallucination'' =
      Some \<lparr>ollama = 0, cloud = 0, difference = 0, better = ''ollama''\<rparr>"
    by simp
  with keys show ?thesis
    unfolding r_def by (rule conjI)
qed

subsection \<open>Entries of a batch\<close>

text \<open>
  Claim C2 says that every entry of every result, from \<open>evaluate_analysis\<close> and from
  \<open>batch_evaluate\<close>, carries either a score with \<open>passed = (score \<ge> threshold)\<close> or an
  error with \<open>passed = False\<close>. In \<open>batch_evaluate\<close> the entry of a metric that raised
  is \<open>{'error': str(e)}\<close>: it has no key \<open>passed\<close>. Here the hallucination metric
  raises on a case with an empty output.
\<close>

theorem batch_evaluate_error_entry_has_no_passed:
  "map (\<lambda>r. results r ''hallucination'')
     (individual_results (fst (batch_evaluate example_clock flaky_evaluator
        [create_test_case ''Installed 3 packages'' [] None None] 0))) =
   [Some \<lparr>score = None, threshold = None, passed = None, reason = None,
          error = Some ''empty output''\<rparr>]"
  by (simp add: batch_evaluate_individual flaky_evaluator_def SentinelEvaluator_init_def
      scorer_flaky_def scorer_high_def batch_evaluate_entry_def create_test_case_def)

text \<open>The entries of \<open>evaluate_analysis\<close> do have one of the two shapes.\<close>

lemma evaluate_analysis_entry_shape:
  "(\<exists>s. score (evaluate_analysis_entry m outcome) = Some s \<and>
        error (evaluate_analysis_entry m outcome) = None \<and>
        threshold (evaluate_analysis_entry m outcome) = Some (threshold_m m) \<and>
        passed (evaluate_analysis_entry m outcome) = Some (threshold_m m \<le> s)) \<or>
   (\<exists>e. error (evaluate_analysis_entry m outcome) = Some e \<and>
        score (evaluate_analysis_entry m outcome) = None \<and>
        passed (evaluate_analysis_entry m outcome) = Some False)"
  by (cases outcome) (simp_all add: evaluate_analysis_entry_def)

lemma evaluate_analysis_entries_shape:
  assumes "distinct (map fst (metrics self))" and "(n, m) \<in> set (metrics self)"
  shows "\<exists>x. results (fst (evaluate_analysis utcnow self log_snippet analysis expected w)) n
               = Some x \<and>
             ((\<exists>s. score x = Some s \<and> error x = None \<and>
                    passed x = Some (threshold_m m \<le> s)) \<or>
              (\<exists>e. error x = Some e \<and> score x = None \<and> passed x = Some False))"
proof -
  from evaluate_analysis_loop_entry [OF assms]
  obtain w1 where "results (fst (evaluate_analysis utcnow self log_snippet analysis expected w))
      n = Some (evaluate_analysis_entry m (fst (measure_m m w1
        (create_test_case log_snippet analysis expected (Some ''Installation log analysis'')))))"
    unfolding evaluate_analysis_results by blast
  with evaluate_analysis_entry_shape [of m] show ?thesis by metis
qed

subsection \<open>Float arithmetic on the example scores\<close>

lemma round64_1_10: "round64 (1 / 10) = 3602879701896397 / 36028797018963968"
  by code_simp

lemma py_add_tenth_1:
  "py_add 0 (3602879701896397 / 36028797018963968) =
   3602879701896397 / 36028797018963968"
  unfolding py_add_def by code_simp

lemma py_add_tenth_2:
  "py_add (3602879701896397 / 36028797018963968) (3602879701896397 / 36028797018963968) =
   3602879701896397 / 18014398509481984"
  unfolding py_add_def by code_simp

lemma py_add_tenth_3:
  "py_add (3602879701896397 / 18014398509481984) (3602879701896397 / 36028797018963968) =
   1351079888211149 / 4503599627370496"
  unfolding py_add_def by code_simp

lemma py_div_tenth:
  "py_div (1351079888211149 / 4503599627370496) 3 =
   7205759403792795 / 72057594037927936"
  unfolding py_div_def by code_simp

lemma mean_of_three_tenths:
  "py_div (py_sum [3602879701896397 / 36028797018963968, 3602879701896397 / 36028797018963968,
      3602879701896397 / 36028797018963968]) 3 = 7205759403792795 / 72057594037927936"
  unfolding py_sum_def foldl.simps py_add_tenth_1 py_add_tenth_2 py_add_tenth_3
  by (rule py_div_tenth)


subsection \<open>Aggregate statistics\<close>

lemma batch_evaluate_aggregate_other:
  "n \<notin> set ns \<Longrightarrow> batch_evaluate_aggregate rs ns agg n = agg n"
  by (induction ns arbitrary: agg) (simp_all split: list.splits)

lemma batch_evaluate_aggregate_entry:
  "n \<in> set ns \<Longrightarrow>
   batch_evaluate_aggregate rs ns agg n =
     (case scores_of rs n of
        [] \<Rightarrow> agg n
      | x # xs \<Rightarrow>
          Some \<lparr>mean = py_div (py_sum (x # xs)) (of_nat (length (x # xs))),
                min_score = foldl min x xs, max_score = foldl max x xs,
                count = length (x # xs)\<rparr>)"
proof (induction ns arbitrary: agg)
  case Nil
  then show ?case by simp
next
  case (Cons k ns)
  show ?case
  proof (cases "n \<in> set ns")
    case True
    from Cons.IH [OF True] show ?thesis
      by (simp split: list.splits)
  next
    case False
    with Cons.prems have "n = k" by simp
    with False show ?thesis
      by (simp add: batch_evaluate_aggregate_other split: list.splits)
  qed
qed

lemma batch_evaluate_aggregate_scores:
  "aggregate_scores (fst (batch_evaluate utcnow self tcs w)) =
     batch_evaluate_aggregate (individual_results (fst (batch_evaluate utcnow self tcs w)))
       (map fst (metrics self)) Map.empty"
  by (simp add: batch_evaluate_def split: prod.splits)

lemma scores_of_map_filter:
  "scores_of rs n = List.map_filter (\<lambda>x. Option.bind (results x n) score) rs"
  by (induction rs)
    (auto simp: scores_of_def List.map_filter_simps has_score_def get_score_def
      split: option.splits)

lemma foldl_min_Min: "foldl min x xs = Min (set (x # xs))"
proof (induction xs arbitrary: x)
  case Nil
  then show ?case by simp
next
  case (Cons y ys)
  have "foldl min x (y # ys) = Min (set (min x y # ys))"
    by (simp add: Cons.IH)
  also have "\<dots> = Min (set (x # y # ys))"
    by (cases ys) (simp_all add: min.assoc)
  finally show ?case .
qed

lemma foldl_max_Max: "foldl max x xs = Max (set (x # xs))"
proof (induction xs arbitrary: x)
  case Nil
  then show ?case by simp
next
  case (Cons y ys)
  have "foldl max x (y # ys) = Max (set (max x y # ys))"
    by (simp add: Cons.IH)
  also have "\<dots> = Max (set (x # y # ys))"
    by (cases ys) (simp_all add: max.assoc)
  finally show ?case .
qed

lemma sum_list_lower: "(\<forall>x \<in> set xs. a \<le> x) \<Longrightarrow> of_nat (length xs) * a \<le> sum_list xs"
  for a :: rat
  by (induction xs) (auto simp: algebra_simps)

lemma sum_list_upper: "(\<forall>x \<in> set xs. x \<le> b) \<Longrightarrow> sum_list xs \<le> of_nat (length xs) * b"
  for b :: rat
  by (induction xs) (auto simp: algebra_simps)

lemma exact_mean_bounds:
  fixes xs :: "rat list"
  assumes "xs \<noteq> []"
  shows "Min (set xs) \<le> sum_list xs / of_nat (length xs)"
    and "sum_list xs / of_nat (length xs) \<le> Max (set xs)"
proof -
  from assms have pos: "(0::rat) < of_nat (length xs)" by simp
  have "of_nat (length xs) * Min (set xs) \<le> sum_list xs"
    by (rule sum_list_lower) simp
  then show "Min (set xs) \<le> sum_list xs / of_nat (length xs)"
    using pos by (simp add: pos_le_divide_eq mult.commute)
  have "sum_list xs \<le> of_nat (length xs) * Max (set xs)"
    by (rule sum_list_upper) simp
  then show "sum_list xs / of_nat (length xs) \<le> Max (set xs)"
    using pos by (simp add: pos_divide_le_eq mult.commute)
qed


lemma batch_evaluate_scored_iff_no_error:
  assumes "distinct (map fst (metrics self))" and "n \<in> fst ` set (metrics self)"
    and "x \<in> set (individual_results (fst (batch_evaluate utcnow self tcs w)))"
  shows "(Option.bind (results x n) score \<noteq> None) =
         (case results x n of None \<Rightarrow> False | Some e \<Rightarrow> error e = None)"
proof -
  from assms(2) obtain m where m: "(n, m) \<in> set (metrics self)" by auto
  from batch_evaluate_cases_entries [OF assms(1) assms(3) [unfolded batch_evaluate_individual] m]
  obtain tc w1 where "results x n = Some (batch_evaluate_entry m (fst (measure_m m w1 tc)))"
    by auto
  then show ?thesis
    using batch_evaluate_entry_shape [of m "fst (measure_m m w1 tc)"] by auto
qed

text \<open>
  Claim C6 says that the mean of an aggregate lies between its min and its max. Three
  cases that each score \<open>0.1\<close> give \<open>sum = 0.30000000000000004\<close> and
  \<open>mean = 0.10000000000000002\<close>, above \<open>max = 0.1\<close>.
\<close>

theorem batch_evaluate_mean_above_max:
  "(case aggregate_scores (fst (batch_evaluate example_clock tenth_evaluator example_batch 0))
          ''relevance'' of
      None \<Rightarrow> False
    | Some a \<Rightarrow> count a = 3 \<and> max_score a < mean a)"
proof -
  have "scores_of (individual_results
          (fst (batch_evaluate example_clock tenth_evaluator example_batch 0))) ''relevance'' =
        [round64 (1 / 10), round64 (1 / 10), round64 (1 / 10)]"
    by (simp add: batch_evaluate_individual tenth_evaluator_def SentinelEvaluator_init_def
        example_batch_def scorer_tenth_def batch_evaluate_entry_def scores_of_def
        has_score_def get_score_def)
  moreover have "''relevance'' \<in> set (map fst (metrics tenth_evaluator))"
    by (simp add: tenth_evaluator_def SentinelEvaluator_init_def)
  ultimately have "aggregate_scores
      (fst (batch_evaluate example_clock tenth_evaluator example_batch 0)) ''relevance'' =
      Some \<lparr>mean = py_div (py_sum [round64 (1 / 10), round64 (1 / 10), round64 (1 / 10)]) 3,
            min_score = round64 (1 / 10), max_score = round64 (1 / 10), count = 3\<rparr>"
    unfolding batch_evaluate_aggregate_scores
    by (simp add: batch_evaluate_aggregate_entry)
  then have "aggregate_scores
      (fst (batch_evaluate example_clock tenth_evaluator example_batch 0)) ''relevance'' =
      Some \<lparr>mean = 7205759403792795 / 72057594037927936,
            min_score = 3602879701896397 / 36028797018963968,
            max_score = 3602879701896397 / 36028797018963968, count = 3\<rparr>"
    by (simp only: round64_1_10 mean_of_three_tenths)
  then show ?thesis
    by simp
qed

text \<open>
  Claim C6, as the code has it. For every metric of the registry: the scores that enter
  the aggregate are those of the cases whose entry carries a score, which are the cases
  whose entry carries no error; when there is none, the metric has no aggregate; else
  \<open>count\<close> is their number, \<open>min\<close> and \<open>max\<close> are the least and the greatest of them,
  \<open>mean\<close> is the float quotient of their float sum by their number, and the exact mean
  of the scores lies between \<open>min\<close> and \<open>max\<close>.
\<close>

theorem batch_evaluate_aggregate_stats:
  assumes "distinct (map fst (metrics self))" and "n \<in> fst ` set (metrics self)"
  shows "(let r = fst (batch_evaluate utcnow self tcs w);
              rs = individual_results r;
              scores = List.map_filter (\<lambda>x. Option.bind (results x n) score) rs
          in length scores =
               length (filter (\<lambda>x. case results x n of
                                      None \<Rightarrow> False
                                    | Some e \<Rightarrow> error e = None) rs) \<and>
             (case aggregate_scores r n of
                None \<Rightarrow> scores = []
              | Some a \<Rightarrow>
                  scores \<noteq> [] \<and>
                  count a = length scores \<and>
                  min_score a = Min (set scores) \<and>
                  max_score a = Max (set scores) \<and>
                  mean a = py_div (py_sum scores) (of_nat (length scores)) \<and>
                  min_score a \<le> sum_list scores / of_nat (length scores) \<and>
                  sum_list scores / of_nat (length scores) \<le> max_score a))"
proof -
  define r where "r = fst (batch_evaluate utcnow self tcs w)"
  define rs where "rs = individual_results r"
  define scores where "scores = List.map_filter (\<lambda>x. Option.bind (results x n) score) rs"
  have scores: "scores_of rs n = scores"
    by (simp add: scores_def scores_of_map_filter)
  have "length scores = length (filter (\<lambda>x. Option.bind (results x n) score \<noteq> None) rs)"
    by (simp add: scores_def List.map_filter_def)
  also have "filter (\<lambda>x. Option.bind (results x n) score \<noteq> None) rs =
      filter (\<lambda>x. case results x n of None \<Rightarrow> False | Some e \<Rightarrow> error e = None) rs"
    using batch_evaluate_scored_iff_no_error [OF assms]
    by (intro filter_cong refl) (simp add: rs_def r_def)
  finally have counted: "length scores =
      length (filter (\<lambda>x. case results x n of None \<Rightarrow> False | Some e \<Rightarrow> error e = None) rs)" .
  from assms(2) have "n \<in> set (map fst (metrics self))" by simp
  then have agg: "aggregate_scores r n =
     (case scores of
        [] \<Rightarrow> None
      | x # xs \<Rightarrow>
          Some \<lparr>mean = py_div (py_sum (x # xs)) (of_nat (length (x # xs))),
                min_score = foldl min x xs, max_score = foldl max x xs,
                count = length (x # xs)\<rparr>)"
    unfolding r_def batch_evaluate_aggregate_scores
    by (simp add: batch_evaluate_aggregate_entry scores [unfolded rs_def r_def])
  have "case aggregate_scores r n of
          None \<Rightarrow> scores = []
        | Some a \<Rightarrow>
            scores \<noteq> [] \<and>
            count a = length scores \<and>
            min_score a = Min (set scores) \<and>
            max_score a = Max (set scores) \<and>
            mean a = py_div (py_sum scores) (of_nat (length scores)) \<and>
            min_score a \<le> sum_list scores / of_nat (length scores) \<and>
            sum_list scores / of_nat (length scores) \<le> max_score a"
  proof (cases scores)
    case Nil
    with agg show ?thesis by simp
  next
    case (Cons x xs)
    have ne: "scores \<noteq> []" using Cons by simp
    from agg Cons have a: "aggregate_scores r n =
        Some \<lparr>mean = py_div (py_sum scores) (of_nat (length scores)),
              min_score = Min (set scores), max_score = Max (set scores),
              count = length scores\<rparr>"
      by (simp only: list.case foldl_min_Min foldl_max_Max)
    show ?thesis
      unfolding a using ne exact_mean_bounds [OF ne] by simp
  qed
  with counted show ?thesis
    unfolding Let_def r_def [symmetric] rs_def [symmetric] scores_def [symmetric]
    by (rule conjI)
qed


lemma py_add_0_three_quarters: "py_add 0 (3 / 4) = 3 / 4"
  unfolding py_add_def by code_simp

lemma py_add_quarters: "py_add (3 / 4) (1 / 4) = 1"
  unfolding py_add_def by code_simp

lemma py_div_1_2: "py_div 1 2 = 1 / 2"
  unfolding py_div_def by code_simp

theorem batch_evaluate_aggregate_stats_witness:
  "aggregate_scores (fst (batch_evaluate example_clock flaky_evaluator example_batch 0))
     ''hallucination'' =
   Some \<lparr>mean = 1 / 2, min_score = 1 / 4, max_score = 3 / 4, count = 2\<rparr>"
proof -
  define r where "r = fst (batch_evaluate example_clock flaky_evaluator example_batch 0)"
  have names: "distinct (map fst (metrics flaky_evaluator))"
    "''hallucination'' \<in> fst ` set (metrics flaky_evaluator)"
    by (simp_all add: flaky_evaluator_def SentinelEvaluator_init_def)
  have scores: "List.map_filter (\<lambda>x. Option.bind (results x ''hallucination'') score)
      (individual_results r) = [3 / 4, 1 / 4]"
    by (simp add: r_def batch_evaluate_individual flaky_evaluator_def
        SentinelEvaluator_init_def example_batch_def scorer_flaky_def scorer_high_def
        batch_evaluate_entry_def create_test_case_def List.map_filter_simps)
  have "Min (set [3 / 4, 1 / 4 :: rat]) = 1 / 4" "Max (set [3 / 4, 1 / 4 :: rat]) = 3 / 4"
    by simp_all
  moreover have "py_div (py_sum [3 / 4, 1 / 4]) (of_nat (length [3 / 4, 1 / 4 :: rat])) = 1 / 2"
    by (simp add: py_sum_def py_add_0_three_quarters py_add_quarters py_div_1_2)
  moreover note batch_evaluate_aggregate_stats [OF names, of example_clock example_batch 0,
      unfolded Let_def, folded r_def, unfolded scores]
  ultimately obtain a where a: "aggregate_scores r ''hallucination'' = Some a"
    "count a = 2" "min_score a = 1 / 4" "max_score a = 3 / 4" "mean a = 1 / 2"
    by (cases "aggregate_scores r ''hallucination''") auto
  have "a = \<lparr>mean = 1 / 2, min_score = 1 / 4, max_score = 3 / 4, count = 2\<rparr>"
    using a(2-5) by (cases a) simp
  with a(1) show ?thesis
    unfolding r_def by simp
qed

section \<open>Properties of the analyzer\<close>

subsection \<open>One extraction\<close>





lemma forward_Inr:
  assumes "forward self s use_both w = (Inr res, w')"
  shows "\<exists>d1 w1. analyze_with (ollama_analyzer self) (ollama_lm self) w s = (Inr d1, w1) \<and>
           (if use_both
            then \<exists>d2. analyze_with (cloud_analyzer self) (cloud_lm self) w1 s = (Inr d2, w') \<and>
                   res = [''ollama'' \<mapsto> d1, ''cloud'' \<mapsto> d2]
            else res = [''ollama'' \<mapsto> d1] \<and> w' = w1)"
  using assms
  by (simp add: forward_def Let_def split: prod.splits sum.splits if_splits)







subsection \<open>The two backends\<close>

lemma analyze_with_traced:
  "analyze_with (traced p) lm (w, calls) s =
     (case analyze_with p lm w s of (r, w') \<Rightarrow> (r, (w', calls @ [lm])))"
  by (simp add: analyze_with_def traced_def split: prod.splits sum.splits)

lemma forward_traced:
  "forward (SentinelAnalyzer_init (traced p) l c) s use_both (w, []) =
     (case analyze_with p l w s of
        (Inl e, w1) \<Rightarrow> (Inl e, (w1, [l]))
      | (Inr d1, w1) \<Rightarrow>
          (if use_both
           then (case analyze_with p c w1 s of
                   (Inl e, w2) \<Rightarrow> (Inl e, (w2, [l, c]))
                 | (Inr d2, w2) \<Rightarrow> (Inr [''ollama'' \<mapsto> d1, ''cloud'' \<mapsto> d2], (w2, [l, c])))
           else (Inr [''ollama'' \<mapsto> d1], (w1, [l]))))"
  by (simp add: forward_def SentinelAnalyzer_init_def analyze_with_traced Let_def
      split: prod.splits sum.splits)

text \<open>
  Claim C4 says that with \<open>use_both\<close> a failure of the local extraction does not keep
  the cloud extraction from being attempted. When the local server is down, \<open>forward\<close>
  raises after one call, the local one, although the cloud backend would have answered.
\<close>

theorem forward_local_failure_skips_cloud:
  "forward (SentinelAnalyzer_init (traced predictor_local_down) example_lm example_cloud_lm)
     ''Error: Failed to install package'' True (0, []) =
     (Inl (BackendError ''connection refused''), (1, [example_lm])) \<and>
   fst (analyze_with predictor_local_down example_cloud_lm 1
          ''Error: Failed to install package'') = analysis_dict prediction_error \<and>
   isl (analysis_dict prediction_error) = False"
  by (simp add: forward_traced analyze_with_def predictor_local_down_def example_lm_def
      example_cloud_lm_def configure_dspy_def analysis_dict_def getattr_def
      prediction_error_def)

text \<open>
  Claim C4, as the code has it. With \<open>use_both\<close> the two extractions run one after the
  other, the local one first. When the local extraction raises, the call raises and
  the cloud backend is not called. When it succeeds, the cloud backend is called; when
  the cloud extraction raises, the call raises (the local extraction has run to its
  end, its result is dropped); when both succeed, the call returns both results.
\<close>

theorem forward_use_both_sequential:
  "(case forward (SentinelAnalyzer_init (traced p) l c) s True (w, []) of
      (r, (w', calls)) \<Rightarrow>
        (case analyze_with p l w s of
           (Inl e, w1) \<Rightarrow> r = Inl e \<and> w' = w1 \<and> calls = [l]
         | (Inr d1, w1) \<Rightarrow>
             calls = [l, c] \<and>
             (case analyze_with p c w1 s of
                (Inl e, w2) \<Rightarrow> r = Inl e \<and> w' = w2
              | (Inr d2, w2) \<Rightarrow>
                  r = Inr [''ollama'' \<mapsto> d1, ''cloud'' \<mapsto> d2] \<and> w' = w2)))"
  by (simp add: forward_traced split: prod.splits sum.splits)

theorem forward_use_both_sequential_witness:
  "forward (SentinelAnalyzer_init (traced predictor_cloud_down) example_lm example_cloud_lm)
     ''Error: Failed to install package'' True (0, []) =
     (Inl (BackendError ''rate limit''), (2, [example_lm, example_cloud_lm]))"
proof -
  have local: "analyze_with predictor_cloud_down example_lm 0
      ''Error: Failed to install package'' = (analysis_dict prediction_error, 1)"
    by (simp add: analyze_with_def predictor_cloud_down_def example_lm_def configure_dspy_def)
  have ok: "\<exists>d. analysis_dict prediction_error = Inr d"
    by (simp add: analysis_dict_def getattr_def prediction_error_def)
  have remote: "analyze_with predictor_cloud_down example_cloud_lm 1
      ''Error: Failed to install package'' = (Inl (BackendError ''rate limit''), 2)"
    by (simp add: analyze_with_def predictor_cloud_down_def example_cloud_lm_def
        configure_dspy_def)
  from ok obtain d where d: "analysis_dict prediction_error = Inr d" ..
  note forward_use_both_sequential [where p = predictor_cloud_down and l = example_lm
      and c = example_cloud_lm and s = "''Error: Failed to install package''" and w = 0,
      unfolded local d prod.case sum.case remote]
  then show ?thesis
    by (auto split: prod.splits)
qed


lemma forward_keys:
  assumes "forward self s use_both w = (Inr res, w')"
  shows "res ''ollama'' \<noteq> None" and "(res ''cloud'' \<noteq> None) = use_both"
    and "res ''comparison'' = None"
proof -
  from forward_Inr [OF assms] obtain d1 where
    rest: "if use_both then \<exists>d2. res = [''ollama'' \<mapsto> d1, ''cloud'' \<mapsto> d2]
           else res = [''ollama'' \<mapsto> d1]"
    by (cases use_both) auto
  show "res ''ollama'' \<noteq> None" and "(res ''cloud'' \<noteq> None) = use_both"
    and "res ''comparison'' = None"
  proof (atomize (full), cases use_both)
    case True
    with rest obtain d2 where "res = [''ollama'' \<mapsto> d1, ''cloud'' \<mapsto> d2]" by auto
    with True show "res ''ollama'' \<noteq> None \<and> (res ''cloud'' \<noteq> None) = use_both \<and>
        res ''comparison'' = None"
      by simp
  next
    case False
    with rest have "res = [''ollama'' \<mapsto> d1]" by simp
    with False show "res ''ollama'' \<noteq> None \<and> (res ''cloud'' \<noteq> None) = use_both \<and>
        res ''comparison'' = None"
      by simp
  qed
qed

lemma analyze_with_dual_llm_comparison:
  "(case fst (analyze_with_dual_llm lib s ollama_model cloud_model compare w) of
      Inl e \<Rightarrow> True
    | Inr res \<Rightarrow>
        (res ''comparison'' \<noteq> None) =
        (compare \<and> res ''ollama'' \<noteq> None \<and> res ''cloud'' \<noteq> None))"
proof -
  obtain lo lc where lms: "configure_dspy ollama_model cloud_model = (lo, lc)"
    by (cases "configure_dspy ollama_model cloud_model")
  define analyzer where "analyzer = SentinelAnalyzer_init (lib_ChainOfThought lib) lo lc"
  obtain r w1 where run: "forward analyzer s True w = (r, w1)"
    by (cases "forward analyzer s True w")
  show ?thesis
  proof (cases r)
    case (Inl e)
    with lms run show ?thesis
      by (simp add: analyze_with_dual_llm_def analyzer_def)
  next
    case (Inr res)
    from forward_keys [OF run [unfolded Inr]]
    obtain a b where keys: "res ''ollama'' = Some a" "res ''cloud'' = Some b"
      "res ''comparison'' = None"
      by auto
    obtain rc w2 where cmp: "LLMComparator_compare lib a b w1 = (rc, w2)"
      by (cases "LLMComparator_compare lib a b w1")
    from lms run Inr keys cmp show ?thesis
      by (cases rc; cases compare)
        (simp_all add: analyze_with_dual_llm_def analyzer_def [symmetric])
  qed
qed

text \<open>
  Claim C5 says that on every call the cloud backend is extracted exactly when
  \<open>use_both\<close> is true. When the local prediction lacks a field, \<open>forward\<close> raises
  after the local call: \<open>use_both\<close> is true and the cloud backend is not called.
\<close>

theorem forward_use_both_without_cloud_call:
  "forward (SentinelAnalyzer_init (traced predictor_partial) example_lm example_cloud_lm)
     ''Error: Failed to install package'' True (0, []) =
     (Inl (AttributeError ''pattern_matched''), (1, [example_lm])) \<and>
   example_cloud_lm \<notin> set [example_lm]"
  by (simp add: forward_traced analyze_with_def predictor_partial_def prediction_partial_def
      analysis_dict_def getattr_def example_lm_def example_cloud_lm_def configure_dspy_def)

text \<open>
  Claim C5, as the code has it. The local backend is always called, and first; the
  cloud backend is called exactly when \<open>use_both\<close> is true and the local extraction has
  succeeded. Whenever \<open>forward\<close> returns, its result has the local entry, it has the
  cloud entry exactly when \<open>use_both\<close> is true, and the cloud backend was called
  exactly when \<open>use_both\<close> is true. Whenever \<open>analyze_with_dual_llm\<close> returns, its result
  has the comparison exactly when \<open>compare\<close> is true and both entries are there.
\<close>

theorem forward_cloud_iff_use_both:
  "(case forward (SentinelAnalyzer_init (traced p) l c) s use_both (w, []) of
      (r, (w', calls)) \<Rightarrow>
        (calls = [l] \<or> use_both \<and> calls = [l, c]) \<and>
        calls = (case fst (analyze_with p l w s) of
                   Inl e \<Rightarrow> [l]
                 | Inr d \<Rightarrow> if use_both then [l, c] else [l]) \<and>
        (case r of
           Inl e \<Rightarrow> True
         | Inr res \<Rightarrow>
             res ''ollama'' \<noteq> None \<and>
             (res ''cloud'' \<noteq> None) = use_both \<and>
             calls = (if use_both then [l, c] else [l]))) \<and>
   (case fst (analyze_with_dual_llm lib s ollama_model cloud_model compare v) of
      Inl e \<Rightarrow> True
    | Inr res \<Rightarrow>
        (res ''comparison'' \<noteq> None) =
        (compare \<and> res ''ollama'' \<noteq> None \<and> res ''cloud'' \<noteq> None))"
proof (rule conjI)
  show "case forward (SentinelAnalyzer_init (traced p) l c) s use_both (w, []) of
      (r, (w', calls)) \<Rightarrow>
        (calls = [l] \<or> use_both \<and> calls = [l, c]) \<and>
        calls = (case fst (analyze_with p l w s) of
                   Inl e \<Rightarrow> [l]
                 | Inr d \<Rightarrow> if use_both then [l, c] else [l]) \<and>
        (case r of
           Inl e \<Rightarrow> True
         | Inr res \<Rightarrow>
             res ''ollama'' \<noteq> None \<and>
             (res ''cloud'' \<noteq> None) = use_both \<and>
             calls = (if use_both then [l, c] else [l]))"
    by (simp add: forward_traced split: prod.splits sum.splits)
next
  show "case fst (analyze_with_dual_llm lib s ollama_model cloud_model compare v) of
      Inl e \<Rightarrow> True
    | Inr res \<Rightarrow>
        (res ''comparison'' \<noteq> None) =
        (compare \<and> res ''ollama'' \<noteq> None \<and> res ''cloud'' \<noteq> None)"
    by (rule analyze_with_dual_llm_comparison)
qed


theorem forward_cloud_iff_use_both_witness:
  "(case forward (SentinelAnalyzer_init (traced predictor_ok) example_lm example_cloud_lm)
           ''Error: Failed to install package'' False (0, []) of
      (r, (w', calls)) \<Rightarrow>
        calls = [example_lm] \<and>
        (case r of Inl e \<Rightarrow> False
         | Inr res \<Rightarrow> res ''ollama'' \<noteq> None \<and> res ''cloud'' = None)) \<and>
   (case forward (SentinelAnalyzer_init (traced predictor_ok) example_lm example_cloud_lm)
           ''Error: Failed to install package'' True (0, []) of
      (r, (w', calls)) \<Rightarrow>
        calls = [example_lm, example_cloud_lm] \<and>
        (case r of Inl e \<Rightarrow> False
         | Inr res \<Rightarrow> res ''ollama'' \<noteq> None \<and> res ''cloud'' \<noteq> None)) \<and>
   (case fst (analyze_with_dual_llm example_library ''Error: Failed to install package''
                ''llama3'' ''gpt-4o'' True 0) of
      Inl e \<Rightarrow> False
    | Inr res \<Rightarrow> res ''comparison'' \<noteq> None) \<and>
   (case fst (analyze_with_dual_llm example_library ''Error: Failed to install package''
                ''llama3'' ''gpt-4o'' False 0) of
      Inl e \<Rightarrow> False
    | Inr res \<Rightarrow> res ''comparison'' = None)"
proof -
  obtain d where d: "analysis_dict prediction_error = Inr d"
    by (simp add: analysis_dict_def getattr_def prediction_error_def)
  have single: "\<exists>res ws. forward
      (SentinelAnalyzer_init (traced predictor_ok) example_lm example_cloud_lm)
      ''Error: Failed to install package'' False (0, []) = (Inr res, ws)"
    by (simp add: forward_traced analyze_with_def predictor_ok_def d)
  have both: "\<exists>res ws. forward
      (SentinelAnalyzer_init (traced predictor_ok) example_lm example_cloud_lm)
      ''Error: Failed to install package'' True (0, []) = (Inr res, ws)"
    by (simp add: forward_traced analyze_with_def predictor_ok_def d)
  have compared: "\<exists>res. fst (analyze_with_dual_llm example_library
      ''Error: Failed to install package'' ''llama3'' ''gpt-4o'' True 0) = Inr res \<and>
      res ''ollama'' \<noteq> None \<and> res ''cloud'' \<noteq> None"
    by (simp add: analyze_with_dual_llm_def configure_dspy_def forward_def
        SentinelAnalyzer_init_def analyze_with_def example_library_def predictor_ok_def d
        LLMComparator_compare_def getattr_def Let_def)
  have plain: "\<exists>res. fst (analyze_with_dual_llm example_library
      ''Error: Failed to install package'' ''llama3'' ''gpt-4o'' False 0) = Inr res"
    by (simp add: analyze_with_dual_llm_def configure_dspy_def forward_def
        SentinelAnalyzer_init_def analyze_with_def example_library_def predictor_ok_def d
        Let_def)
  from single forward_cloud_iff_use_both [where p = predictor_ok and l = example_lm
      and c = example_cloud_lm and s = "''Error: Failed to install package''"
      and use_both = False and w = 0, THEN conjunct1]
  have first: "case forward
        (SentinelAnalyzer_init (traced predictor_ok) example_lm example_cloud_lm)
        ''Error: Failed to install package'' False (0, []) of
      (r, (w', calls)) \<Rightarrow>
        calls = [example_lm] \<and>
        (case r of Inl e \<Rightarrow> False
         | Inr res \<Rightarrow> res ''ollama'' \<noteq> None \<and> res ''cloud'' = None)"
    by auto
  from both forward_cloud_iff_use_both [where p = predictor_ok and l = example_lm
      and c = example_cloud_lm and s = "''Error: Failed to install package''"
      and use_both = True and w = 0, THEN conjunct1]
  have second: "case forward
        (SentinelAnalyzer_init (traced predictor_ok) example_lm example_cloud_lm)
        ''Error: Failed to install package'' True (0, []) of
      (r, (w', calls)) \<Rightarrow>
        calls = [example_lm, example_cloud_lm] \<and>
        (case r of Inl e \<Rightarrow> False
         | Inr res \<Rightarrow> res ''ollama'' \<noteq> None \<and> res ''cloud'' \<noteq> None)"
    by auto
  from compared forward_cloud_iff_use_both [where lib = example_library
      and s = "''Error: Failed to install package''" and ollama_model = "''llama3''"
      and cloud_model = "''gpt-4o''" and compare = True and v = 0, THEN conjunct2]
  have third: "case fst (analyze_with_dual_llm example_library
        ''Error: Failed to install package'' ''llama3'' ''gpt-4o'' True 0) of
      Inl e \<Rightarrow> False
    | Inr res \<Rightarrow> res ''comparison'' \<noteq> None"
    by auto
  from plain forward_cloud_iff_use_both [where lib = example_library
      and s = "''Error: Failed to install package''" and ollama_model = "''llama3''"
      and cloud_model = "''gpt-4o''" and compare = False and v = 0, THEN conjunct2]
  have fourth: "case fst (analyze_with_dual_llm example_library
        ''Error: Failed to install package'' ''llama3'' ''gpt-4o'' False 0) of
      Inl e \<Rightarrow> False
    | Inr res \<Rightarrow> res ''comparison'' = None"
    by auto
  from first second third fourth show ?thesis
    by (intro conjI)
qed

end
